theory Spec2Isabelle
  imports Main "HOL-Library.AList" "HOL-Library.Multiset"
begin

section \<open>JavaScript values\<close>

text \<open>
  The scripts are untyped: what comes back from \<^verbatim>\<open>JSON.parse\<close>, from the spreadsheet
  webhook or from a Firestore document is an arbitrary value. Values are modelled as a
  datatype. The number type \<open>'n\<close> is a parameter: the scripts only move numbers around,
  multiply two of them and compare one with zero, so nothing here depends on the
  rounding of IEEE doubles. \<open>JNaN\<close> is the number NaN, kept apart because it is falsy and
  unequal to every number. An object is the list of its properties in insertion order.
\<close>

datatype 'n jsval =
    JUndefined
  | JNull
  | JBool bool
  | JNum 'n
  | JNaN
  | JStr string
  | JArr "'n jsval list"
  | JObj "(string \<times> 'n jsval) list"

type_synonym 'n jsobj = "(string \<times> 'n jsval) list"

text \<open>
  A thrown value: the constructor name of the error object and its \<^verbatim>\<open>message\<close>.
  What \<^verbatim>\<open>fetch\<close>, \<^verbatim>\<open>JSON.parse\<close> and the Firestore calls throw or reject with
  are error objects, and so is what the scripts throw themselves.
\<close>

datatype js_error = JsError (errorName: string) (message: string)

text \<open>How a promise settles; also the completion of an \<^verbatim>\<open>async\<close> function.\<close>

datatype 'a settled = Resolved 'a | Rejected js_error

definition nullish :: "'n jsval \<Rightarrow> bool" where
  "nullish v = (case v of JUndefined \<Rightarrow> True | JNull \<Rightarrow> True | _ \<Rightarrow> False)"

text \<open>
  \<^verbatim>\<open>if (v)\<close>: \<^verbatim>\<open>undefined\<close>, \<^verbatim>\<open>null\<close>, \<^verbatim>\<open>false\<close>, zero, NaN and the empty string are
  falsy, everything else (every array and object too) is truthy.
\<close>

definition truthy :: "'n::zero jsval \<Rightarrow> bool" where
  "truthy v =
     (case v of
        JUndefined \<Rightarrow> False
      | JNull \<Rightarrow> False
      | JBool b \<Rightarrow> b
      | JNum n \<Rightarrow> n \<noteq> 0
      | JNaN \<Rightarrow> False
      | JStr s \<Rightarrow> s \<noteq> []
      | JArr _ \<Rightarrow> True
      | JObj _ \<Rightarrow> True)"

text \<open>
  \<^verbatim>\<open>v.k\<close> for a value \<open>v\<close> that is not \<^verbatim>\<open>null\<close> or \<^verbatim>\<open>undefined\<close> (on those the read
  throws a TypeError, which every caller below checks with \<open>nullish\<close> first). The keys
  read by the scripts (\<^verbatim>\<open>id\<close>, \<^verbatim>\<open>name\<close>, \<^verbatim>\<open>price\<close>, \<^verbatim>\<open>quantity\<close>, \<^verbatim>\<open>status\<close>,
  \<^verbatim>\<open>orderDate\<close>, \<^verbatim>\<open>success\<close>, \<^verbatim>\<open>order\<close>, \<^verbatim>\<open>orders\<close>, \<^verbatim>\<open>error\<close>, \<^verbatim>\<open>total\<close>, \<^verbatim>\<open>items\<close>)
  are properties of no primitive and of no array, so there the read gives \<^verbatim>\<open>undefined\<close>.
\<close>

definition get :: "'n jsval \<Rightarrow> string \<Rightarrow> 'n jsval" where
  "get v k =
     (case v of
        JObj kvs \<Rightarrow> (case map_of kvs k of Some x \<Rightarrow> x | None \<Rightarrow> JUndefined)
      | _ \<Rightarrow> JUndefined)"

text \<open>
  \<^verbatim>\<open>v.k = x\<close> for a truthy \<open>v\<close>. On an object the property is overwritten in place or
  appended. The scripts run in sloppy mode, where the assignment to a property of a
  primitive is silently dropped; a property set on an array is not an element and is
  not serialised, so the array is left as it is.
\<close>

definition setProp :: "'n jsval \<Rightarrow> string \<Rightarrow> 'n jsval \<Rightarrow> 'n jsval" where
  "setProp v k x = (case v of JObj kvs \<Rightarrow> JObj (AList.update k x kvs) | _ \<Rightarrow> v)"

text \<open>
  Object spread \<^verbatim>\<open>{...base, ...src}\<close>: the properties of \<open>src\<close> are set one after the
  other on a copy of \<open>base\<close>, so a key of \<open>src\<close> overrides the same key of \<open>base\<close>.
\<close>

definition spread :: "'n jsobj \<Rightarrow> 'n jsobj \<Rightarrow> 'n jsobj" where
  "spread base src = fold (\<lambda>(k, x). AList.update k x) src base"

text \<open>\<^verbatim>\<open>s.includes(pat)\<close> on strings.\<close>

fun startsWith :: "string \<Rightarrow> string \<Rightarrow> bool" where
  "startsWith s [] = True"
| "startsWith [] (p # ps) = False"
| "startsWith (c # cs) (p # ps) = (c = p \<and> startsWith cs ps)"

fun includesStr :: "string \<Rightarrow> string \<Rightarrow> bool" where
  "includesStr [] pat = (pat = [])"
| "includesStr (c # cs) pat = (startsWith (c # cs) pat \<or> includesStr cs pat)"

text \<open>\<^verbatim>\<open>parts.join(sep)\<close> on an array of strings.\<close>

fun join :: "string list \<Rightarrow> string \<Rightarrow> string" where
  "join [] sep = []"
| "join [x] sep = x"
| "join (x # y # ys) sep = x @ sep @ join (y # ys) sep"

section \<open>The runtime and the page\<close>

text \<open>
  What the scripts take from the browser and do not define themselves. \<open>JSON_parse\<close>
  returns the parsed value or the SyntaxError it throws; \<open>times\<close> is the \<^verbatim>\<open>*\<close> operator
  with its conversions; \<open>toString\<close> is the conversion a template literal applies;
  \<open>dateValue v\<close> is the time value in milliseconds of \<^verbatim>\<open>new Date(v)\<close>, \<open>None\<close> for an
  invalid date; \<open>Date_now\<close> and \<open>toISOString\<close> are the two clock reads of a submission.
\<close>

record 'n runtime =
  JSON_parse :: "string \<Rightarrow> js_error + 'n jsval"
  times :: "'n jsval \<Rightarrow> 'n jsval \<Rightarrow> 'n jsval"
  toString :: "'n jsval \<Rightarrow> string"
  parseInt :: "string \<Rightarrow> 'n jsval"
  dateValue :: "'n jsval \<Rightarrow> int option"
  Date_now :: 'n
  toISOString :: string

datatype log_entry = ConsoleLog string | ConsoleWarn string | ConsoleError string

text \<open>
  A call to a backend, as issued: the JSON envelope posted to the spreadsheet webhook,
  the catalog read, or one of the Firestore calls on the \<^verbatim>\<open>orders\<close> collection
  (\<^verbatim>\<open>add(data)\<close>, the ordered query, \<^verbatim>\<open>doc(key).get()\<close>, \<^verbatim>\<open>doc(key).update(fields)\<close>).
\<close>

datatype 'n request =
    SheetsPost "'n jsval"
  | CatalogGet
  | FirestoreAdd "'n jsobj"
  | FirestoreQuery
  | FirestoreGet "'n jsval"
  | FirestoreUpdate "'n jsval" "'n jsobj"

text \<open>
  An order card of the admin dashboard: the order it displays and, when the
  "Mark as Complete" button was rendered, the button's \<^verbatim>\<open>data-order-id\<close> attribute;
  \<open>None\<close> stands for the "Completed" label.
\<close>

datatype 'n card = OrderCard (shown: "'n jsval") (action: "string option")

datatype 'n orders_dom = Untouched | NoOrdersFound | Cards "'n card list"

text \<open>
  The order summary of the order page: not yet rendered, "Your cart is empty.", or the
  line of the cart item with the amount \<^verbatim>\<open>item.price * item.quantity\<close>.
\<close>

datatype 'n summary = SummaryBlank | CartEmpty | CartLine "'n jsval" "'n jsval"

text \<open>
  The link of the navigation menu that the Firestore script finds with the selector
  \<^verbatim>\<open>a[href="login.html"]\<close>: as the markup has it, or after \<^verbatim>\<open>updateAuthUI\<close> turned it
  into the logout link (text "Logout", \<^verbatim>\<open>href\<close> set to \<^verbatim>\<open>#\<close>, the sign-out handler as
  \<^verbatim>\<open>onclick\<close>), which the selector no longer matches.
\<close>

datatype nav_link = LoginLink | LogoutLink

text \<open>
  Everything the scripts read or write outside their own variables, and the global
  \<^verbatim>\<open>allProducts\<close>. \<open>productGrid\<close> is the content of the \<^verbatim>\<open>#product-grid\<close> element,
  \<open>None\<close> on a page without one. \<open>submitListener\<close> tells whether the order form has the
  script's submit listener, \<open>statusListeners\<close> whether the status buttons have theirs.
  The other elements a page's script looks up (the order form and its inputs, the
  confirmation modal, the orders list) are part of that page's markup and are taken to
  exist. \<open>signedIn\<close> is what the identity backend holds at the moment: whether there is
  a current user. \<open>navLink\<close> is the login link of the menu, \<open>None\<close> on a page without
  one.
\<close>

record 'n world =
  localStorage :: "string \<rightharpoonup> string"
  alerts :: "string list"
  console :: "log_entry list"
  href :: string
  protocol :: string
  modalVisible :: bool
  submitListener :: bool
  requests :: "'n request list"
  productGrid :: "string option"
  allProducts :: "'n jsval"
  ordersList :: "'n orders_dom"
  statusListeners :: bool
  orderSummary :: "'n summary"
  signedIn :: bool
  navLink :: "nav_link option"

definition alert :: "string \<Rightarrow> 'n world \<Rightarrow> 'n world" where
  "alert msg w = w\<lparr>alerts := alerts w @ [msg]\<rparr>"

definition logTo :: "log_entry \<Rightarrow> 'n world \<Rightarrow> 'n world" where
  "logTo e w = w\<lparr>console := console w @ [e]\<rparr>"

definition send :: "'n request \<Rightarrow> 'n world \<Rightarrow> 'n world" where
  "send r w = w\<lparr>requests := requests w @ [r]\<rparr>"

section \<open>Sign-in state (Firestore script)\<close>

text \<open>
  \<^verbatim>\<open>isUserSignedIn()\<close> subscribes to the authentication state, and its promise
  resolves to \<^verbatim>\<open>!!user\<close> for the user the backend reports at that moment.
\<close>

definition isUserSignedIn :: "'n world \<Rightarrow> bool" where
  "isUserSignedIn w = signedIn w"

text \<open>
  \<^verbatim>\<open>signOut()\<close>; \<open>reply\<close> is how \<^verbatim>\<open>auth.signOut()\<close> settles. The promise resolves in
  both cases.
\<close>

definition signOut :: "unit settled \<Rightarrow> 'n world \<Rightarrow> 'n jsval settled \<times> 'n world" where
  "signOut reply w =
     (case reply of
        Resolved u \<Rightarrow>
          (Resolved (JObj [(''success'', JBool True)]),
           logTo (ConsoleLog ''User signed out'') (w\<lparr>signedIn := False\<rparr>))
      | Rejected e \<Rightarrow>
          (Resolved (JObj [(''success'', JBool False), (''error'', JStr (message e))]),
           logTo (ConsoleError ''Sign out error:'') w))"

text \<open>
  \<^verbatim>\<open>updateAuthUI(isSignedIn)\<close> changes the link that the selector finds, if any: for a
  signed-in user it becomes the logout link, otherwise it is set to what a login link
  already is.
\<close>

definition updateAuthUI :: "bool \<Rightarrow> 'n world \<Rightarrow> 'n world" where
  "updateAuthUI isSignedIn w =
     (case navLink w of
        Some LoginLink \<Rightarrow> if isSignedIn then w\<lparr>navLink := Some LogoutLink\<rparr> else w
      | _ \<Rightarrow> w)"

text \<open>
  \<^verbatim>\<open>checkAuthStatus()\<close> updates the link for the state it finds and subscribes
  \<^verbatim>\<open>updateAuthUI\<close> to later changes of the state.
\<close>

definition checkAuthStatus :: "'n world \<Rightarrow> 'n world" where
  "checkAuthStatus w = updateAuthUI (isUserSignedIn w) w"

text \<open>
  A click on the link of the menu. On the logout link the handler calls \<^verbatim>\<open>signOut()\<close>;
  after a change of the state the subscribed \<^verbatim>\<open>updateAuthUI\<close> runs. On a login link no
  code of the script runs (the browser follows the link).
\<close>

definition navLinkClick :: "unit settled \<Rightarrow> 'n world \<Rightarrow> 'n world" where
  "navLinkClick reply w =
     (case navLink w of
        Some LogoutLink \<Rightarrow>
          (case signOut reply w of
             (Resolved result, w1) \<Rightarrow>
               logTo (ConsoleLog ''Successfully signed out'') (updateAuthUI (signedIn w1) w1)
           | (Rejected e, w1) \<Rightarrow> logTo (ConsoleError ''Error signing out:'') w1)
      | _ \<Rightarrow> w)"

section \<open>The order page\<close>

subsection \<open>\<^verbatim>\<open>saveOrder\<close>, spreadsheet webhook\<close>

text \<open>
  \<open>reply\<close> is how \<^verbatim>\<open>await fetch(...)\<close> followed by \<^verbatim>\<open>await response.json()\<close> settles:
  rejected when the request fails or the body is not JSON, else the parsed body. Reading
  \<^verbatim>\<open>result.success\<close> of a \<^verbatim>\<open>null\<close> body throws inside the \<^verbatim>\<open>try\<close>.
\<close>

definition saveOrder_sheets ::
  "'n::zero jsval settled \<Rightarrow> 'n jsobj \<Rightarrow> 'n world \<Rightarrow> 'n jsval settled \<times> 'n world" where
  "saveOrder_sheets reply order w =
     (let w1 = send (SheetsPost (JObj [(''action'', JStr ''saveOrder''), (''order'', JObj order)])) w
      in case reply of
           Rejected e \<Rightarrow>
             (Resolved (JBool False), logTo (ConsoleError ''Error saving order to Google Sheets:'') w1)
         | Resolved result \<Rightarrow>
             if nullish result then
               (Resolved (JBool False), logTo (ConsoleError ''Error saving order to Google Sheets:'') w1)
             else if truthy (get result ''success'') then
               (Resolved (JBool True), logTo (ConsoleLog ''Order saved successfully to Google Sheets'') w1)
             else
               (Resolved (JBool False), logTo (ConsoleError ''Error saving order:'') w1))"

subsection \<open>\<^verbatim>\<open>saveOrder\<close>, Firestore\<close>

text \<open>The sentinel that \<^verbatim>\<open>FieldValue.serverTimestamp()\<close> returns.\<close>

definition serverTimestamp :: "'n jsval" where
  "serverTimestamp = JObj [(''_methodName'', JStr ''FieldValue.serverTimestamp'')]"

text \<open>
  \<open>reply\<close> is how \<^verbatim>\<open>await db.collection('orders').add(...)\<close> settles: rejected, or the
  identifier of the new document.
\<close>

definition saveOrder_firestore ::
  "string settled \<Rightarrow> 'n jsobj \<Rightarrow> 'n world \<Rightarrow> 'n jsval settled \<times> 'n world" where
  "saveOrder_firestore reply order w =
     (let w1 = send (FirestoreAdd (spread order [(''createdAt'', serverTimestamp)])) w
      in case reply of
           Resolved docId \<Rightarrow>
             (Resolved (JBool True), logTo (ConsoleLog ''Order saved successfully to Firestore with ID: '') w1)
         | Rejected e \<Rightarrow>
             (Resolved (JBool False), logTo (ConsoleError ''Error saving order to Firestore:'') w1))"

subsection \<open>The submit listener\<close>

text \<open>
  The values of the form at submission. \<open>deliveryType\<close> is the value of the checked
  radio button, \<open>None\<close> when none is checked: then \<^verbatim>\<open>querySelector\<close> gives \<^verbatim>\<open>null\<close> and
  reading its \<^verbatim>\<open>value\<close> throws before anything else happens.
\<close>

record form =
  name :: string
  email :: string
  phone :: string
  address :: string
  deliveryType :: "string option"

definition buildOrder :: "'n runtime \<Rightarrow> form \<Rightarrow> string \<Rightarrow> 'n jsval \<Rightarrow> 'n jsobj" where
  "buildOrder P f dt item =
     [(''id'', JNum (Date_now P)),
      (''customerId'', JStr (email f)),
      (''customerName'', JStr (name f)),
      (''customerEmail'', JStr (email f)),
      (''customerPhone'', JStr (phone f)),
      (''customerAddress'', JStr (address f)),
      (''deliveryType'', JStr dt),
      (''items'', JArr [JObj [(''id'', get item ''id''),
                              (''name'', get item ''name''),
                              (''price'', get item ''price''),
                              (''quantity'', get item ''quantity'')]]),
      (''total'', times P (get item ''price'') (get item ''quantity'')),
      (''orderDate'', JStr (toISOString P)),
      (''status'', JStr ''pending'')]"

definition missingFields :: "form \<Rightarrow> string list" where
  "missingFields f =
     (if name f = [] then [''Name''] else []) @
     (if email f = [] then [''Email''] else []) @
     (if phone f = [] then [''Phone''] else [])"

definition missingFieldsMessage :: "form \<Rightarrow> string" where
  "missingFieldsMessage f =
     ''Please fill in the following required fields: '' @ join (missingFields f) '', '' @ ''.''"

definition noItemsMessage :: string where
  "noItemsMessage = ''No items in cart. Please select an item first.''"

definition saveErrorMessage :: string where
  "saveErrorMessage = ''There was an error saving your order. Please try again.''"

definition nullRead :: js_error where
  "nullRead = JsError ''TypeError'' ''Cannot read properties of null''"

text \<open>
  \<^verbatim>\<open>localStorage.getItem("cartItem")\<close> followed by \<^verbatim>\<open>if (orderItemData)\<close>: the entry is
  absent (\<^verbatim>\<open>null\<close>) or the empty string, or it is handed to \<^verbatim>\<open>JSON.parse\<close>.
\<close>

definition cartEntry :: "'n world \<Rightarrow> string option" where
  "cartEntry w =
     (case localStorage w ''cartItem'' of
        None \<Rightarrow> None
      | Some s \<Rightarrow> if s = [] then None else Some s)"

text \<open>
  The listener of the form's submit event, the same text in both scripts; \<open>save\<close> is
  the \<^verbatim>\<open>saveOrder\<close> of the script that is loaded. \<open>Inl\<close> is an exception that leaves the
  listener; \<open>Inr\<close> the page after the listener and the callbacks of the promise have run.
\<close>

definition onSubmit ::
  "'n::zero runtime \<Rightarrow> ('n jsobj \<Rightarrow> 'n world \<Rightarrow> 'n jsval settled \<times> 'n world) \<Rightarrow>
     form \<Rightarrow> 'n world \<Rightarrow> js_error + 'n world" where
  "onSubmit P save f w =
     (case deliveryType f of
        None \<Rightarrow> Inl nullRead
      | Some dt \<Rightarrow>
          if name f \<noteq> [] \<and> email f \<noteq> [] \<and> phone f \<noteq> [] then
            (case cartEntry w of
               None \<Rightarrow> Inr (alert noItemsMessage w)
             | Some s \<Rightarrow>
                 (case JSON_parse P s of
                    Inl e \<Rightarrow> Inl e
                  | Inr item \<Rightarrow>
                      if nullish item then Inl nullRead
                      else
                        (case save (buildOrder P f dt item) w of
                           (Resolved success, w1) \<Rightarrow>
                             if truthy success then
                               Inr (w1\<lparr>modalVisible := True,
                                       localStorage := (localStorage w1)(''cartItem'' := None)\<rparr>)
                             else Inr (alert saveErrorMessage w1)
                         | (Rejected e, w1) \<Rightarrow>
                             Inr (alert saveErrorMessage (logTo (ConsoleError ''Error saving order:'') w1)))))
          else Inr (alert (missingFieldsMessage f) w))"

subsection \<open>\<^verbatim>\<open>initOrderPage\<close>\<close>

text \<open>
  The summary and the registration of the listener. Parsing the cart entry for the
  summary can throw, and then the listener is never registered.
\<close>

definition renderSummary :: "'n runtime \<Rightarrow> 'n world \<Rightarrow> js_error + 'n world" where
  "renderSummary P w =
     (case cartEntry w of
        None \<Rightarrow> Inr (w\<lparr>orderSummary := CartEmpty\<rparr>)
      | Some s \<Rightarrow>
          (case JSON_parse P s of
             Inl e \<Rightarrow> Inl e
           | Inr item \<Rightarrow>
               if nullish item then Inl nullRead
               else Inr (w\<lparr>orderSummary :=
                              CartLine item (times P (get item ''price'') (get item ''quantity''))\<rparr>)))"

definition initOrderPage_sheets :: "'n runtime \<Rightarrow> 'n world \<Rightarrow> js_error + 'n world" where
  "initOrderPage_sheets P w =
     (case renderSummary P w of
        Inl e \<Rightarrow> Inl e
      | Inr w1 \<Rightarrow> Inr (w1\<lparr>submitListener := True\<rparr>))"

text \<open>
  The Firestore script first awaits \<^verbatim>\<open>isUserSignedIn()\<close> and goes on only when it
  resolves to true. Then it also copies the user's email into the email input, which
  the listener later reads as part of the form. The listener is the same as in the
  spreadsheet script: it does not ask for the sign-in state.
\<close>

definition initOrderPage_firestore :: "'n runtime \<Rightarrow> 'n world \<Rightarrow> js_error + 'n world" where
  "initOrderPage_firestore P w =
     (if \<not> isUserSignedIn w then
        Inr ((alert ''Please log in to place an order.'' w)\<lparr>href := ''login.html''\<rparr>)
      else
        (case renderSummary P w of
           Inl e \<Rightarrow> Inl e
         | Inr w1 \<Rightarrow> Inr (w1\<lparr>submitListener := True\<rparr>)))"

text \<open>
  What the Firestore script runs on the order page once the document is loaded, after
  the catalog: \<^verbatim>\<open>checkAuthStatus()\<close>, then \<^verbatim>\<open>initOrderPage()\<close>.
\<close>

definition openOrderPage_firestore :: "'n runtime \<Rightarrow> 'n world \<Rightarrow> js_error + 'n world" where
  "openOrderPage_firestore P w = initOrderPage_firestore P (checkAuthStatus w)"

text \<open>
  A submit event on the order form: the script's listener runs when it was registered;
  otherwise no code of the script runs.
\<close>

definition submitEvent ::
  "'n::zero runtime \<Rightarrow> ('n jsobj \<Rightarrow> 'n world \<Rightarrow> 'n jsval settled \<times> 'n world) \<Rightarrow>
     form \<Rightarrow> 'n world \<Rightarrow> js_error + 'n world" where
  "submitEvent P save f w = (if submitListener w then onSubmit P save f w else Inr w)"

section \<open>The catalog\<close>

text \<open>
  How \<^verbatim>\<open>fetch("products.json")\<close> and the reading of its body end: the fetch is rejected,
  the response is not \<^verbatim>\<open>ok\<close> (with its status), reading the body as JSON is rejected,
  or the body is parsed.
\<close>

datatype 'n catalog_reply =
    FetchFailed js_error
  | NotOk 'n
  | BodyFailed js_error
  | Body "'n jsval"

definition couldNotLoad :: string where
  "couldNotLoad =
     ''<p style=\"color: var(--primary-color);\">Could not load flavors. Please run this page through a web server.</p>''"

text \<open>The \<^verbatim>\<open>catch\<close> block of \<^verbatim>\<open>loadProducts\<close>, for the error that was thrown.\<close>

definition loadProductsCatch :: "js_error \<Rightarrow> 'n world \<Rightarrow> 'n world" where
  "loadProductsCatch e w =
     (let w1 = logTo (ConsoleError ''Could not fetch products:'') w
      in if protocol w1 = ''file:'' \<or> includesStr (message e) ''Failed to fetch'' then
           (logTo (ConsoleWarn ''Running in local file environment - products will be loaded when served through a web server.'') w1)
             \<lparr>allProducts := JArr []\<rparr>
         else
           w1\<lparr>productGrid := (case productGrid w1 of None \<Rightarrow> None | Some old \<Rightarrow> Some couldNotLoad),
               allProducts := JArr []\<rparr>)"

text \<open>
  The \<^verbatim>\<open>try\<close> block up to the assignment: the error it throws (the rejection of an
  awaited promise or the \<^verbatim>\<open>Error\<close> made for a response that is not \<^verbatim>\<open>ok\<close>), or the
  parsed body.
\<close>

definition fetchProducts :: "'n runtime \<Rightarrow> 'n catalog_reply \<Rightarrow> js_error + 'n jsval" where
  "fetchProducts P reply =
     (case reply of
        FetchFailed e \<Rightarrow> Inl e
      | NotOk status \<Rightarrow> Inl (JsError ''Error'' (''HTTP error! status: '' @ toString P (JNum status)))
      | BodyFailed e \<Rightarrow> Inl e
      | Body v \<Rightarrow> Inr v)"

definition loadProducts ::
  "'n runtime \<Rightarrow> 'n catalog_reply \<Rightarrow> 'n world \<Rightarrow> unit settled \<times> 'n world" where
  "loadProducts P reply w =
     (let w0 = send CatalogGet w
      in case fetchProducts P reply of
           Inl e \<Rightarrow> (Resolved (), loadProductsCatch e w0)
         | Inr v \<Rightarrow>
             (Resolved (), logTo (ConsoleLog ''Products loaded successfully:'') (w0\<lparr>allProducts := v\<rparr>)))"

section \<open>The spreadsheet adapter and the admin dashboard\<close>

definition getAllOrders_sheets ::
  "'n::zero jsval settled \<Rightarrow> 'n world \<Rightarrow> 'n jsval settled \<times> 'n world" where
  "getAllOrders_sheets reply w =
     (let w1 = send (SheetsPost (JObj [(''action'', JStr ''getAllOrders'')])) w
      in case reply of
           Rejected e \<Rightarrow>
             (Resolved (JArr []), logTo (ConsoleError ''Error fetching orders from Google Sheets:'') w1)
         | Resolved result \<Rightarrow>
             if nullish result then
               (Resolved (JArr []), logTo (ConsoleError ''Error fetching orders from Google Sheets:'') w1)
             else if truthy (get result ''success'') then
               (Resolved (if truthy (get result ''orders'') then get result ''orders'' else JArr []), w1)
             else
               (Resolved (JArr []), logTo (ConsoleError ''Error fetching orders:'') w1))"

definition getOrderById_sheets ::
  "'n::zero jsval settled \<Rightarrow> 'n jsval \<Rightarrow> 'n world \<Rightarrow> 'n jsval settled \<times> 'n world" where
  "getOrderById_sheets reply orderId w =
     (let w1 = send (SheetsPost (JObj [(''action'', JStr ''getOrderById''), (''orderId'', orderId)])) w
      in case reply of
           Rejected e \<Rightarrow>
             (Resolved JNull, logTo (ConsoleError ''Error fetching order from Google Sheets:'') w1)
         | Resolved result \<Rightarrow>
             if nullish result then
               (Resolved JNull, logTo (ConsoleError ''Error fetching order from Google Sheets:'') w1)
             else if truthy (get result ''success'') then
               (Resolved (get result ''order''), w1)
             else
               (Resolved JNull, logTo (ConsoleError ''Error fetching order:'') w1))"

subsection \<open>Sorting the orders\<close>

text \<open>
  The comparison function \<^verbatim>\<open>(a, b) => new Date(b.orderDate) - new Date(a.orderDate)\<close>;
  \<open>None\<close> is NaN, the difference when one of the dates is invalid.
\<close>

definition compareByDate :: "'n runtime \<Rightarrow> 'n jsval \<Rightarrow> 'n jsval \<Rightarrow> int option" where
  "compareByDate P a b =
     (case dateValue P (get b ''orderDate'') of
        None \<Rightarrow> None
      | Some tb \<Rightarrow>
          (case dateValue P (get a ''orderDate'') of
             None \<Rightarrow> None
           | Some ta \<Rightarrow> Some (tb - ta)))"

text \<open>
  \<^verbatim>\<open>Array.prototype.sort\<close> with a comparison function: the sort is stable, \<open>a\<close> stays
  before \<open>b\<close> unless the comparison is positive, and NaN counts as zero. For a
  consistent comparison function every conforming engine returns this list; for an
  inconsistent one the order is implementation-defined and this is one of the orders
  allowed. \<^verbatim>\<open>undefined\<close> elements are not compared and go to the end.
\<close>

fun insertSorted :: "('a \<Rightarrow> 'a \<Rightarrow> int option) \<Rightarrow> 'a \<Rightarrow> 'a list \<Rightarrow> 'a list" where
  "insertSorted c x [] = [x]"
| "insertSorted c x (y # ys) =
     (if (case c x y of None \<Rightarrow> True | Some v \<Rightarrow> v \<le> 0) then x # y # ys
      else y # insertSorted c x ys)"

definition sortWith :: "('a \<Rightarrow> 'a \<Rightarrow> int option) \<Rightarrow> 'a list \<Rightarrow> 'a list" where
  "sortWith c xs = foldr (insertSorted c) xs []"

definition arraySort ::
  "('n jsval \<Rightarrow> 'n jsval \<Rightarrow> int option) \<Rightarrow> 'n jsval list \<Rightarrow> 'n jsval list" where
  "arraySort c xs =
     sortWith c (filter (\<lambda>x. x \<noteq> JUndefined) xs) @ filter (\<lambda>x. x = JUndefined) xs"

text \<open>
  The comparison function reads \<^verbatim>\<open>orderDate\<close> of both arguments, which throws on
  \<^verbatim>\<open>null\<close>; with two or more compared elements every one of them is an argument of
  some comparison.
\<close>

definition sortOrders :: "'n runtime \<Rightarrow> 'n jsval list \<Rightarrow> js_error + 'n jsval list" where
  "sortOrders P os =
     (if 2 \<le> length (filter (\<lambda>x. x \<noteq> JUndefined) os) \<and> JNull \<in> set os then Inl nullRead
      else Inr (arraySort (compareByDate P) os))"

subsection \<open>Rendering the cards\<close>

definition isNumber :: "'n jsval \<Rightarrow> bool" where
  "isNumber v = (case v of JNum n \<Rightarrow> True | JNaN \<Rightarrow> True | _ \<Rightarrow> False)"

text \<open>
  Building the card of an order throws unless \<^verbatim>\<open>order.total\<close> is a number (it is
  formatted with \<^verbatim>\<open>toFixed\<close>), \<^verbatim>\<open>order.items\<close> is an array (it is mapped over), and
  every item is a value with a numeric \<^verbatim>\<open>price\<close>.
\<close>

definition itemRenders :: "'n jsval \<Rightarrow> bool" where
  "itemRenders it = (\<not> nullish it \<and> isNumber (get it ''price''))"

definition cardRenders :: "'n jsval \<Rightarrow> bool" where
  "cardRenders order =
     (\<not> nullish order \<and> isNumber (get order ''total'') \<and>
      (case get order ''items'' of JArr its \<Rightarrow> list_all itemRenders its | _ \<Rightarrow> False))"

text \<open>
  The status button is created only if \<^verbatim>\<open>order.status === 'pending'\<close>; it carries
  \<^verbatim>\<open>data-order-id="${order.id}"\<close>.
\<close>

definition orderCard :: "'n runtime \<Rightarrow> 'n jsval \<Rightarrow> 'n card" where
  "orderCard P order =
     OrderCard order
       (if get order ''status'' = JStr ''pending'' then Some (toString P (get order ''id'')) else None)"

text \<open>
  The \<^verbatim>\<open>forEach\<close> that appends one card per order: the cards appended so far and the
  exception, if one stopped the loop.
\<close>

fun renderCards ::
  "'n runtime \<Rightarrow> 'n jsval list \<Rightarrow> 'n card list \<Rightarrow> js_error option \<times> 'n card list" where
  "renderCards P [] cards = (None, cards)"
| "renderCards P (order # rest) cards =
     (if cardRenders order then renderCards P rest (cards @ [orderCard P order])
      else (Some nullRead, cards))"

text \<open>
  \<^verbatim>\<open>loadAndDisplayOrders\<close>. A value that is not an array has no \<^verbatim>\<open>sort\<close>; an object
  whose \<^verbatim>\<open>length\<close> is zero still takes the early return.
\<close>

definition notAFunction :: js_error where
  "notAFunction = JsError ''TypeError'' ''orders.sort is not a function''"

definition displayOrders :: "'n::zero runtime \<Rightarrow> 'n jsval \<Rightarrow> 'n world \<Rightarrow> unit settled \<times> 'n world" where
  "displayOrders P orders w =
     (case orders of
        JArr os \<Rightarrow>
          if os = [] then (Resolved (), w\<lparr>ordersList := NoOrdersFound, statusListeners := False\<rparr>)
          else
            (case sortOrders P os of
               Inl e \<Rightarrow> (Rejected e, w)
             | Inr ordered \<Rightarrow>
                 (case renderCards P ordered [] of
                    (Some e, cards) \<Rightarrow>
                      (Rejected e, w\<lparr>ordersList := Cards cards, statusListeners := False\<rparr>)
                  | (None, cards) \<Rightarrow>
                      (Resolved (), w\<lparr>ordersList := Cards cards, statusListeners := True\<rparr>)))
      | JObj kvs \<Rightarrow>
          if get orders ''length'' = JNum 0 then
            (Resolved (), w\<lparr>ordersList := NoOrdersFound, statusListeners := False\<rparr>)
          else (Rejected notAFunction, w)
      | _ \<Rightarrow> (Rejected notAFunction, w))"

definition loadAndDisplayOrders ::
  "'n::zero runtime \<Rightarrow> 'n jsval settled \<Rightarrow> 'n world \<Rightarrow> unit settled \<times> 'n world" where
  "loadAndDisplayOrders P listReply w =
     (case getAllOrders_sheets listReply w of
        (Resolved orders, w1) \<Rightarrow> displayOrders P orders w1
      | (Rejected e, w1) \<Rightarrow> (Rejected e, w1))"

subsection \<open>\<^verbatim>\<open>updateOrderStatus\<close>, spreadsheet webhook\<close>

text \<open>
  The \<^verbatim>\<open>catch\<close> block. The function has no \<^verbatim>\<open>return\<close> statement: on every path its
  promise resolves to \<^verbatim>\<open>undefined\<close>.
\<close>

definition updateStatusCatch :: "js_error \<Rightarrow> 'n world \<Rightarrow> 'n jsval settled \<times> 'n world" where
  "updateStatusCatch e w =
     (Resolved JUndefined,
      alert (''Error updating order status: '' @ message e)
        (logTo (ConsoleError ''Error updating order status:'') w))"

text \<open>
  \<open>getReply\<close>, \<open>updateReply\<close> and \<open>listReply\<close> are the replies of the webhook to the three
  requests the function can issue: the read of the order, the write of the changed
  order, and the reload of the list, which is started and not awaited.
\<close>

definition updateOrderStatus_sheets ::
  "'n::zero runtime \<Rightarrow> 'n jsval settled \<Rightarrow> 'n jsval settled \<Rightarrow> 'n jsval settled \<Rightarrow>
     'n jsval \<Rightarrow> 'n jsval \<Rightarrow> 'n world \<Rightarrow> 'n jsval settled \<times> 'n world" where
  "updateOrderStatus_sheets P getReply updateReply listReply orderId newStatus w =
     (case getOrderById_sheets getReply orderId w of
        (Rejected e, w1) \<Rightarrow> updateStatusCatch e w1
      | (Resolved order, w1) \<Rightarrow>
          if truthy order then
            (let w2 = send (SheetsPost (JObj [(''action'', JStr ''updateOrder''),
                                              (''order'', setProp order ''status'' newStatus)])) w1
             in case updateReply of
                  Rejected e \<Rightarrow> updateStatusCatch e w2
                | Resolved result \<Rightarrow>
                    if nullish result then updateStatusCatch nullRead w2
                    else if truthy (get result ''success'') then
                      (Resolved JUndefined,
                       alert (''Order #'' @ toString P orderId @ '' status updated to '' @ toString P newStatus)
                         (snd (loadAndDisplayOrders P listReply w2)))
                    else
                      (Resolved JUndefined,
                       alert (''Error updating order: '' @ toString P (get result ''error'')) w2))
          else
            (Resolved JUndefined, alert (''Order #'' @ toString P orderId @ '' not found'') w1))"

text \<open>
  A click on the status button of the \<open>i\<close>-th card. Nothing runs when the card has no
  button or the buttons have no listener.
\<close>

definition clickStatusButton ::
  "'n::zero runtime \<Rightarrow> 'n jsval settled \<Rightarrow> 'n jsval settled \<Rightarrow> 'n jsval settled \<Rightarrow>
     nat \<Rightarrow> 'n world \<Rightarrow> 'n world" where
  "clickStatusButton P getReply updateReply listReply i w =
     (case ordersList w of
        Cards cards \<Rightarrow>
          if statusListeners w \<and> i < length cards then
            (case action (cards ! i) of
               Some idText \<Rightarrow>
                 snd (updateOrderStatus_sheets P getReply updateReply listReply
                        (parseInt P idText) (JStr ''completed'') w)
             | None \<Rightarrow> w)
          else w
      | _ \<Rightarrow> w)"

section \<open>The Firestore adapter\<close>

text \<open>The record built from a document snapshot: \<^verbatim>\<open>{ id: doc.id, ...data }\<close>.\<close>

definition fromSnapshot :: "string \<Rightarrow> 'n jsobj \<Rightarrow> 'n jsval" where
  "fromSnapshot docId data = JObj (spread [(''id'', JStr docId)] data)"

text \<open>\<open>reply\<close>: the documents of the query snapshot, each with its identifier and data.\<close>

definition getAllOrders_firestore ::
  "(string \<times> 'n jsobj) list settled \<Rightarrow> 'n world \<Rightarrow> 'n jsval settled \<times> 'n world" where
  "getAllOrders_firestore reply w =
     (let w1 = send FirestoreQuery w
      in case reply of
           Resolved docs \<Rightarrow> (Resolved (JArr (map (\<lambda>(docId, data). fromSnapshot docId data) docs)), w1)
         | Rejected e \<Rightarrow>
             (Resolved (JArr []), logTo (ConsoleError ''Error fetching orders from Firestore:'') w1))"

text \<open>
  \<open>reply\<close>: the snapshot of the document, with its identifier and, when it exists,
  its data.
\<close>

definition getOrderById_firestore ::
  "(string \<times> 'n jsobj option) settled \<Rightarrow> 'n jsval \<Rightarrow> 'n world \<Rightarrow> 'n jsval settled \<times> 'n world" where
  "getOrderById_firestore reply orderId w =
     (let w1 = send (FirestoreGet orderId) w
      in case reply of
           Resolved (docId, Some data) \<Rightarrow> (Resolved (fromSnapshot docId data), w1)
         | Resolved (docId, None) \<Rightarrow>
             (Resolved JNull, logTo (ConsoleError ''Order not found in Firestore'') w1)
         | Rejected e \<Rightarrow>
             (Resolved JNull, logTo (ConsoleError ''Error fetching order from Firestore:'') w1))"

text \<open>
  \<^verbatim>\<open>const { id, ...orderData } = updatedOrder\<close>, then \<^verbatim>\<open>doc(id).update(orderData)\<close>;
  \<open>reply\<close> is how that call ends.
\<close>

definition updateOrder_firestore ::
  "unit settled \<Rightarrow> 'n jsobj \<Rightarrow> 'n world \<Rightarrow> 'n jsval settled \<times> 'n world" where
  "updateOrder_firestore reply updatedOrder w =
     (let w1 = send (FirestoreUpdate (get (JObj updatedOrder) ''id'') (AList.delete ''id'' updatedOrder)) w
      in case reply of
           Resolved u \<Rightarrow>
             (Resolved (JBool True), logTo (ConsoleLog ''Order updated successfully in Firestore'') w1)
         | Rejected e \<Rightarrow>
             (Resolved (JBool False), logTo (ConsoleError ''Error updating order in Firestore:'') w1))"

text \<open>
  \<open>reload\<close> is the global \<^verbatim>\<open>loadAndDisplayOrders\<close> when some script defines it as a
  function; this script does not.
\<close>

definition updateOrderStatus_firestore ::
  "'n runtime \<Rightarrow> ('n world \<Rightarrow> 'n world) option \<Rightarrow> unit settled \<Rightarrow>
     'n jsval \<Rightarrow> 'n jsval \<Rightarrow> 'n world \<Rightarrow> 'n jsval settled \<times> 'n world" where
  "updateOrderStatus_firestore P reload reply orderId newStatus w =
     (let w1 = send (FirestoreUpdate orderId [(''status'', newStatus)]) w
      in case reply of
           Resolved u \<Rightarrow>
             (Resolved JUndefined,
              alert (''Order #'' @ toString P orderId @ '' status updated to '' @ toString P newStatus)
                (case reload of None \<Rightarrow> w1 | Some r \<Rightarrow> r w1))
         | Rejected e \<Rightarrow>
             (Resolved JUndefined,
              alert (''Error updating order status: '' @ message e)
                (logTo (ConsoleError ''Error updating order status in Firestore:'') w1)))"

section \<open>Notions used in the statements\<close>

text \<open>The time value of an order's \<^verbatim>\<open>orderDate\<close>, as the comparison function reads it.\<close>

definition orderTime :: "'n runtime \<Rightarrow> 'n jsval \<Rightarrow> int option" where
  "orderTime P order = dateValue P (get order ''orderDate'')"

definition isObject :: "'n jsval \<Rightarrow> bool" where
  "isObject v = (case v of JObj kvs \<Rightarrow> True | _ \<Rightarrow> False)"

text \<open>\<open>a\<close> and \<open>b\<close> both have a valid date and \<open>a\<close> is not older than \<open>b\<close>.\<close>

definition notOlder :: "'n runtime \<Rightarrow> 'n jsval \<Rightarrow> 'n jsval \<Rightarrow> bool" where
  "notOlder P a b =
     (case orderTime P a of
        None \<Rightarrow> False
      | Some ta \<Rightarrow> (case orderTime P b of None \<Rightarrow> False | Some tb \<Rightarrow> tb \<le> ta))"

text \<open>
  The request with which \<^verbatim>\<open>updateOrderStatus\<close> of the spreadsheet script writes an
  order back.
\<close>

definition statusWrite :: "'n jsval \<Rightarrow> 'n jsval \<Rightarrow> 'n request" where
  "statusWrite order newStatus =
     SheetsPost (JObj [(''action'', JStr ''updateOrder''), (''order'', setProp order ''status'' newStatus)])"

text \<open>Every card on the page is the card \<open>orderCard\<close> builds for the order it shows.\<close>

definition faithfulCards :: "'n runtime \<Rightarrow> 'n orders_dom \<Rightarrow> bool" where
  "faithfulCards P list =
     (case list of Cards cards \<Rightarrow> list_all (\<lambda>c. c = orderCard P (shown c)) cards | _ \<Rightarrow> True)"

text \<open>
  The states of the admin dashboard: the page before the list is first rendered, and
  every state reached from it by loading the list or by clicking on a card, whatever
  the webhook replies.
\<close>

inductive dashboard :: "'n::zero runtime \<Rightarrow> 'n world \<Rightarrow> bool" for P :: "'n runtime" where
  opened: "ordersList w = Untouched \<Longrightarrow> dashboard P w"
| loaded: "dashboard P w \<Longrightarrow> dashboard P (snd (loadAndDisplayOrders P listReply w))"
| clicked: "dashboard P w \<Longrightarrow> dashboard P (clickStatusButton P getReply updateReply listReply i w)"

section \<open>A concrete runtime and concrete pages\<close>

text \<open>
  The theorems below hold for every runtime. To evaluate the scripts on concrete
  inputs, here is one over the integers: it parses one cart entry, multiplies numbers,
  prints and reads decimal numerals, and knows the time values of three dates.
\<close>

definition exampleCartText :: string where
  \<open>exampleCartText = ''{"id":3,"name":"Vanilla","price":5,"quantity":2,"image":"v.jpg"}''\<close>

definition exampleItem :: "int jsval" where
  "exampleItem =
     JObj [(''id'', JNum 3), (''name'', JStr ''Vanilla''), (''price'', JNum 5),
           (''quantity'', JNum 2), (''image'', JStr ''v.jpg'')]"

definition exampleTimes :: "int jsval \<Rightarrow> int jsval \<Rightarrow> int jsval" where
  "exampleTimes a b =
     (case a of JNum x \<Rightarrow> (case b of JNum y \<Rightarrow> JNum (x * y) | _ \<Rightarrow> JNaN) | _ \<Rightarrow> JNaN)"

definition digitChar :: "nat \<Rightarrow> char" where
  "digitChar n = ''0123456789'' ! n"

fun showNat :: "nat \<Rightarrow> string" where
  "showNat n = (if n < 10 then [digitChar n] else showNat (n div 10) @ [digitChar (n mod 10)])"

definition digitValue :: "char \<Rightarrow> nat" where
  "digitValue c = length (takeWhile (\<lambda>d. d \<noteq> c) ''0123456789'')"

definition exampleToString :: "int jsval \<Rightarrow> string" where
  "exampleToString v =
     (case v of
        JStr s \<Rightarrow> s
      | JNum i \<Rightarrow> (if i < 0 then ''-'' @ showNat (nat (- i)) else showNat (nat i))
      | JUndefined \<Rightarrow> ''undefined''
      | JNull \<Rightarrow> ''null''
      | JNaN \<Rightarrow> ''NaN''
      | JBool b \<Rightarrow> (if b then ''true'' else ''false'')
      | _ \<Rightarrow> ''[object Object]'')"

definition exampleParseInt :: "string \<Rightarrow> int jsval" where
  "exampleParseInt s =
     (if s \<noteq> [] \<and> list_all (\<lambda>c. digitValue c < 10) s
      then JNum (int (foldl (\<lambda>n c. 10 * n + digitValue c) 0 s)) else JNaN)"

definition exampleDateValue :: "int jsval \<Rightarrow> int option" where
  "exampleDateValue v =
     (case v of
        JNum t \<Rightarrow> Some t
      | JStr s \<Rightarrow>
          map_of [(''2023-11-14T22:13:20.000Z'', 1700000000000),
                  (''2024-01-01T00:00:00.000Z'', 1704067200000),
                  (''2024-03-01T00:00:00.000Z'', 1709251200000)] s
      | _ \<Rightarrow> None)"

definition exampleRuntime :: "int runtime" where
  "exampleRuntime =
     \<lparr>JSON_parse = (\<lambda>s. if s = exampleCartText then Inr exampleItem
                          else Inl (JsError ''SyntaxError'' ''Unexpected token'')),
      times = exampleTimes,
      toString = exampleToString,
      parseInt = exampleParseInt,
      dateValue = exampleDateValue,
      Date_now = 1700000000000,
      toISOString = ''2023-11-14T22:13:20.000Z''\<rparr>"

definition exampleForm :: form where
  "exampleForm =
     \<lparr>name = ''Ada'', email = ''ada@example.org'', phone = ''555-0100'', address = [],
      deliveryType = Some ''pickup''\<rparr>"

definition freshPage :: "int world" where
  "freshPage =
     \<lparr>localStorage = Map.empty, alerts = [], console = [], href = ''order.html'',
      protocol = ''https:'', modalVisible = False, submitListener = False, requests = [],
      productGrid = None, allProducts = JArr [], ordersList = Untouched,
      statusListeners = False, orderSummary = SummaryBlank, signedIn = False,
      navLink = Some LoginLink\<rparr>"

definition cartPage :: "int world" where
  "cartPage = freshPage\<lparr>localStorage := [''cartItem'' \<mapsto> exampleCartText]\<rparr>"

text \<open>
  The order page of a signed-in user with the example cart entry, before the script
  runs, and the same page after \<^verbatim>\<open>checkAuthStatus()\<close> and \<^verbatim>\<open>initOrderPage()\<close>.
\<close>

definition signedInPage :: "int world" where
  "signedInPage = cartPage\<lparr>signedIn := True\<rparr>"

definition readyPage :: "int world" where
  "readyPage =
     signedInPage\<lparr>navLink := Some LogoutLink,
                   orderSummary := CartLine exampleItem (JNum 10),
                   submitListener := True\<rparr>"

definition gridPage :: "int world" where
  "gridPage = freshPage\<lparr>href := ''products.html'', productGrid := Some ''<div>old grid</div>''\<rparr>"

definition exampleOrder :: "int \<Rightarrow> string \<Rightarrow> string \<Rightarrow> int jsval" where
  "exampleOrder n date status =
     JObj [(''id'', JNum n),
           (''customerName'', JStr ''Ada''),
           (''items'', JArr [JObj [(''id'', JNum 3), (''name'', JStr ''Vanilla''),
                                   (''price'', JNum 5), (''quantity'', JNum 2)]]),
           (''total'', JNum 10),
           (''orderDate'', JStr date),
           (''status'', JStr status)]"

definition exampleOrders :: "int jsval list" where
  "exampleOrders =
     [exampleOrder 1001 ''2024-01-01T00:00:00.000Z'' ''pending'',
      exampleOrder 1002 ''2024-03-01T00:00:00.000Z'' ''completed'',
      exampleOrder 1003 ''2023-11-14T22:13:20.000Z'' ''pending'']"

definition exampleListReply :: "int jsval settled" where
  "exampleListReply = Resolved (JObj [(''success'', JBool True), (''orders'', JArr exampleOrders)])"

definition exampleGetReply :: "int jsval settled" where
  "exampleGetReply =
     Resolved (JObj [(''success'', JBool True),
                     (''order'', exampleOrder 1001 ''2024-01-01T00:00:00.000Z'' ''pending'')])"

definition exampleOkReply :: "int jsval settled" where
  "exampleOkReply = Resolved (JObj [(''success'', JBool True)])"

definition loadedPage :: "int world" where
  "loadedPage = snd (loadAndDisplayOrders exampleRuntime exampleListReply freshPage)"

definition exampleStored :: "int jsobj" where
  "exampleStored =
     spread (buildOrder exampleRuntime exampleForm ''pickup'' exampleItem)
       [(''createdAt'', serverTimestamp)]"

section \<open>Basic facts\<close>

lemma alert_frame [simp]:
  "alerts (alert m w) = alerts w @ [m]"
  "requests (alert m w) = requests w"
  "localStorage (alert m w) = localStorage w"
  "modalVisible (alert m w) = modalVisible w"
  "ordersList (alert m w) = ordersList w"
  by (simp_all add: alert_def)

lemma map_of_spread:
  "distinct (map fst src) \<Longrightarrow>
   map_of (spread base src) k = (case map_of src k of Some x \<Rightarrow> Some x | None \<Rightarrow> map_of base k)"
proof (induction src arbitrary: base)
  case Nil
  then show ?case by (simp add: spread_def)
next
  case (Cons p src)
  obtain k' x where p: "p = (k', x)" by (cases p)
  have s: "spread base ((k', x) # src) = spread (AList.update k' x base) src"
    by (simp add: spread_def)
  have n: "map_of src k' = None"
    using Cons.prems p by (simp add: map_of_eq_None_iff)
  show ?case
    using Cons.IH[of "AList.update k' x base"] Cons.prems n
    by (auto simp add: s p update_conv' split: option.splits)
qed

section \<open>Order submission\<close>

lemma missingFields_exact:
  "((''Name'' \<in> set (missingFields f)) = (name f = [])) \<and>
   ((''Email'' \<in> set (missingFields f)) = (email f = [])) \<and>
   ((''Phone'' \<in> set (missingFields f)) = (phone f = [])) \<and>
   set (missingFields f) \<subseteq> {''Name'', ''Email'', ''Phone''} \<and> distinct (missingFields f)"
  by (simp add: missingFields_def)

lemma saveOrder_sheets_frame:
  "localStorage (snd (saveOrder_sheets r order w)) = localStorage w"
  "alerts (snd (saveOrder_sheets r order w)) = alerts w"
  "modalVisible (snd (saveOrder_sheets r order w)) = modalVisible w"
  "requests (snd (saveOrder_sheets r order w)) =
     requests w @ [SheetsPost (JObj [(''action'', JStr ''saveOrder''), (''order'', JObj order)])]"
  by (simp_all add: saveOrder_sheets_def send_def logTo_def Let_def split: settled.splits)

lemma saveOrder_sheets_result:
  "fst (saveOrder_sheets r order w) = Resolved (JBool True) \<or>
   fst (saveOrder_sheets r order w) = Resolved (JBool False)"
  by (simp add: saveOrder_sheets_def Let_def split: settled.splits)

lemma saveOrder_firestore_frame:
  "localStorage (snd (saveOrder_firestore r order w)) = localStorage w"
  "alerts (snd (saveOrder_firestore r order w)) = alerts w"
  "modalVisible (snd (saveOrder_firestore r order w)) = modalVisible w"
  "requests (snd (saveOrder_firestore r order w)) =
     requests w @ [FirestoreAdd (spread order [(''createdAt'', serverTimestamp)])]"
  by (simp_all add: saveOrder_firestore_def send_def logTo_def Let_def split: settled.splits)

lemma saveOrder_firestore_result:
  "fst (saveOrder_firestore r order w) = Resolved (JBool True) \<or>
   fst (saveOrder_firestore r order w) = Resolved (JBool False)"
  by (simp add: saveOrder_firestore_def Let_def split: settled.splits)

text \<open>
  A submission that passes both checks, for any \<open>save\<close> whose promise resolves to a
  boolean: the listener's two callbacks.
\<close>

lemma onSubmit_valid:
  assumes "name f \<noteq> []" and "email f \<noteq> []" and "phone f \<noteq> []"
    and "deliveryType f = Some dt"
    and "localStorage w ''cartItem'' = Some s" and "s \<noteq> []"
    and "JSON_parse P s = Inr item" and "\<not> nullish item"
    and "save (buildOrder P f dt item) w = (Resolved (JBool b), w1)"
  shows "onSubmit P save f w =
           Inr (if b then w1\<lparr>modalVisible := True,
                             localStorage := (localStorage w1)(''cartItem'' := None)\<rparr>
                else alert saveErrorMessage w1)"
  using assms by (simp add: onSubmit_def cartEntry_def truthy_def)

lemma example_submission:
  "name exampleForm \<noteq> []" "email exampleForm \<noteq> []" "phone exampleForm \<noteq> []"
  "deliveryType exampleForm = Some ''pickup''"
  "localStorage cartPage ''cartItem'' = Some exampleCartText" "exampleCartText \<noteq> []"
  "JSON_parse exampleRuntime exampleCartText = Inr exampleItem" "\<not> nullish exampleItem"
  by (simp_all add: exampleForm_def cartPage_def freshPage_def exampleCartText_def
      exampleRuntime_def exampleItem_def nullish_def)

text \<open>
  Claim C1. A submission with non-empty name, email and phone (and a delivery option
  checked, as the form always has) finds a cart entry that parses to an item. In both
  scripts: when \<^verbatim>\<open>saveOrder\<close> resolves to \<^verbatim>\<open>true\<close>, the cart entry is removed from
  \<^verbatim>\<open>localStorage\<close>, the confirmation modal is visible and no alert is shown; otherwise
  \<^verbatim>\<open>localStorage\<close> and the modal are as before and the one alert shown is the
  "Please try again" message, so the same form can be submitted again.
\<close>

theorem order_submission_outcome:
  assumes "name f \<noteq> []" and "email f \<noteq> []" and "phone f \<noteq> []"
    and "deliveryType f = Some dt"
    and "localStorage w ''cartItem'' = Some s" and "s \<noteq> []"
    and "JSON_parse P s = Inr item" and "\<not> nullish item"
  shows "(\<exists>w2. onSubmit P (saveOrder_sheets r) f w = Inr w2 \<and>
            (if fst (saveOrder_sheets r (buildOrder P f dt item) w) = Resolved (JBool True)
             then localStorage w2 ''cartItem'' = None \<and> modalVisible w2 \<and> alerts w2 = alerts w
             else localStorage w2 = localStorage w \<and> modalVisible w2 = modalVisible w \<and>
                  alerts w2 = alerts w @ [saveErrorMessage])) \<and>
         (\<exists>w2. onSubmit P (saveOrder_firestore r') f w = Inr w2 \<and>
            (if fst (saveOrder_firestore r' (buildOrder P f dt item) w) = Resolved (JBool True)
             then localStorage w2 ''cartItem'' = None \<and> modalVisible w2 \<and> alerts w2 = alerts w
             else localStorage w2 = localStorage w \<and> modalVisible w2 = modalVisible w \<and>
                  alerts w2 = alerts w @ [saveErrorMessage]))"
proof (intro conjI)
  let ?o = "buildOrder P f dt item"
  obtain b w1 where b: "saveOrder_sheets r ?o w = (Resolved (JBool b), w1)"
    using saveOrder_sheets_result[of r ?o w] by (metis prod.collapse)
  have w1: "localStorage w1 = localStorage w" "alerts w1 = alerts w" "modalVisible w1 = modalVisible w"
    using saveOrder_sheets_frame(1-3)[of r ?o w] b by simp_all
  from onSubmit_valid[where save="saveOrder_sheets r", OF assms b]
  show "\<exists>w2. onSubmit P (saveOrder_sheets r) f w = Inr w2 \<and>
            (if fst (saveOrder_sheets r ?o w) = Resolved (JBool True)
             then localStorage w2 ''cartItem'' = None \<and> modalVisible w2 \<and> alerts w2 = alerts w
             else localStorage w2 = localStorage w \<and> modalVisible w2 = modalVisible w \<and>
                  alerts w2 = alerts w @ [saveErrorMessage])"
    by (cases b) (simp_all add: b w1)
next
  let ?o = "buildOrder P f dt item"
  obtain b w1 where b: "saveOrder_firestore r' ?o w = (Resolved (JBool b), w1)"
    using saveOrder_firestore_result[of r' ?o w] by (metis prod.collapse)
  have w1: "localStorage w1 = localStorage w" "alerts w1 = alerts w" "modalVisible w1 = modalVisible w"
    using saveOrder_firestore_frame(1-3)[of r' ?o w] b by simp_all
  from onSubmit_valid[where save="saveOrder_firestore r'", OF assms b]
  show "\<exists>w2. onSubmit P (saveOrder_firestore r') f w = Inr w2 \<and>
            (if fst (saveOrder_firestore r' ?o w) = Resolved (JBool True)
             then localStorage w2 ''cartItem'' = None \<and> modalVisible w2 \<and> alerts w2 = alerts w
             else localStorage w2 = localStorage w \<and> modalVisible w2 = modalVisible w \<and>
                  alerts w2 = alerts w @ [saveErrorMessage])"
    by (cases b) (simp_all add: b w1)
qed

text \<open>
  The example submission: the webhook answers \<^verbatim>\<open>{success: true}\<close>, the Firestore
  call is rejected.
\<close>

theorem order_submission_outcome_witness:
  "name exampleForm \<noteq> [] \<and> email exampleForm \<noteq> [] \<and> phone exampleForm \<noteq> [] \<and>
   deliveryType exampleForm = Some ''pickup'' \<and>
   localStorage cartPage ''cartItem'' = Some exampleCartText \<and> exampleCartText \<noteq> [] \<and>
   JSON_parse exampleRuntime exampleCartText = Inr exampleItem \<and> \<not> nullish exampleItem \<and>
   (\<exists>w2. onSubmit exampleRuntime (saveOrder_sheets exampleOkReply) exampleForm cartPage = Inr w2 \<and>
      localStorage w2 ''cartItem'' = None \<and> modalVisible w2 \<and> alerts w2 = []) \<and>
   (\<exists>w2. onSubmit exampleRuntime
            (saveOrder_firestore (Rejected (JsError ''FirebaseError'' ''unavailable'')))
            exampleForm cartPage = Inr w2 \<and>
      localStorage w2 = localStorage cartPage \<and> \<not> modalVisible w2 \<and>
      alerts w2 = [''There was an error saving your order. Please try again.''])"
proof -
  have ok: "fst (saveOrder_sheets exampleOkReply
                 (buildOrder exampleRuntime exampleForm ''pickup'' exampleItem) cartPage)
            = Resolved (JBool True)"
    by (simp add: saveOrder_sheets_def exampleOkReply_def nullish_def get_def truthy_def)
  have bad: "fst (saveOrder_firestore (Rejected (JsError ''FirebaseError'' ''unavailable''))
                 (buildOrder exampleRuntime exampleForm ''pickup'' exampleItem) cartPage)
            \<noteq> Resolved (JBool True)"
    by (simp add: saveOrder_firestore_def)
  have p: "alerts cartPage = []" "\<not> modalVisible cartPage"
    by (simp_all add: cartPage_def freshPage_def)
  from order_submission_outcome[OF example_submission,
      of exampleOkReply "Rejected (JsError ''FirebaseError'' ''unavailable'')"]
  show ?thesis using ok bad p example_submission by (simp add: saveErrorMessage_def)
qed

text \<open>
  Claim C2. When one or more of name, email and phone is empty (and a delivery
  option is checked, as the form always has), the listener calls no \<^verbatim>\<open>saveOrder\<close> and
  issues no request: whatever \<open>save\<close> is, the page afterwards is the page before with
  one alert added. The alert is the fixed sentence followed by the missing names joined
  with a comma, and \<^verbatim>\<open>Name\<close>, \<^verbatim>\<open>Email\<close>, \<^verbatim>\<open>Phone\<close> are listed exactly when the field is
  empty, each once and nothing else.
\<close>

theorem missing_fields_reported:
  assumes "name f = [] \<or> email f = [] \<or> phone f = []"
    and "deliveryType f = Some dt"
  shows "onSubmit P save f w = Inr (alert (missingFieldsMessage f) w) \<and>
         requests (alert (missingFieldsMessage f) w) = requests w \<and>
         alerts (alert (missingFieldsMessage f) w) = alerts w @ [missingFieldsMessage f] \<and>
         missingFieldsMessage f =
           ''Please fill in the following required fields: '' @ join (missingFields f) '', '' @ ''.'' \<and>
         ((''Name'' \<in> set (missingFields f)) = (name f = [])) \<and>
         ((''Email'' \<in> set (missingFields f)) = (email f = [])) \<and>
         ((''Phone'' \<in> set (missingFields f)) = (phone f = [])) \<and>
         set (missingFields f) \<subseteq> {''Name'', ''Email'', ''Phone''} \<and>
         distinct (missingFields f)"
  using assms missingFields_exact[of f]
  by (auto simp add: onSubmit_def missingFieldsMessage_def)

theorem missing_fields_reported_witness:
  "(name (exampleForm\<lparr>name := [], phone := []\<rparr>) = [] \<or>
    email (exampleForm\<lparr>name := [], phone := []\<rparr>) = [] \<or>
    phone (exampleForm\<lparr>name := [], phone := []\<rparr>) = []) \<and>
   deliveryType (exampleForm\<lparr>name := [], phone := []\<rparr>) = Some ''pickup'' \<and>
   onSubmit exampleRuntime (saveOrder_sheets exampleOkReply)
     (exampleForm\<lparr>name := [], phone := []\<rparr>) cartPage =
     Inr (alert ''Please fill in the following required fields: Name, Phone.'' cartPage) \<and>
   missingFields (exampleForm\<lparr>name := [], phone := []\<rparr>) = [''Name'', ''Phone'']"
proof -
  let ?f = "exampleForm\<lparr>name := [], phone := []\<rparr>"
  have h1: "name ?f = [] \<or> email ?f = [] \<or> phone ?f = []" by simp
  have h2: "deliveryType ?f = Some ''pickup''" by (simp add: exampleForm_def)
  have m: "missingFields ?f = [''Name'', ''Phone'']"
    by (simp add: missingFields_def exampleForm_def)
  from missing_fields_reported[OF h1 h2, of exampleRuntime "saveOrder_sheets exampleOkReply" cartPage]
  show ?thesis using h1 h2 m by (simp add: missingFieldsMessage_def)
qed

text \<open>
  Claim C8. When name, email and phone are non-empty (and a delivery option is
  checked) but \<^verbatim>\<open>localStorage\<close> has no cart entry, the listener calls no \<^verbatim>\<open>saveOrder\<close>
  and issues no request: the page afterwards is the page before with the one alert
  "No items in cart. Please select an item first.", which differs from the
  missing-fields message of every form.
\<close>

theorem empty_cart_reported_separately:
  assumes "name f \<noteq> []" and "email f \<noteq> []" and "phone f \<noteq> []"
    and "deliveryType f = Some dt"
    and "localStorage w ''cartItem'' = None"
  shows "onSubmit P save f w = Inr (alert noItemsMessage w) \<and>
         requests (alert noItemsMessage w) = requests w \<and>
         alerts (alert noItemsMessage w) = alerts w @ [noItemsMessage] \<and>
         (\<forall>g. noItemsMessage \<noteq> missingFieldsMessage g)"
  using assms
  by (simp add: onSubmit_def cartEntry_def noItemsMessage_def missingFieldsMessage_def)

theorem empty_cart_reported_separately_witness:
  "name exampleForm \<noteq> [] \<and> email exampleForm \<noteq> [] \<and> phone exampleForm \<noteq> [] \<and>
   deliveryType exampleForm = Some ''pickup'' \<and> localStorage freshPage ''cartItem'' = None \<and>
   onSubmit exampleRuntime (saveOrder_firestore (Resolved ''doc1'')) exampleForm freshPage =
     Inr (alert ''No items in cart. Please select an item first.'' freshPage) \<and>
   requests (alert ''No items in cart. Please select an item first.'' freshPage) = []"
proof -
  have h: "localStorage freshPage ''cartItem'' = None" by (simp add: freshPage_def)
  from empty_cart_reported_separately[OF example_submission(1-4) h, of exampleRuntime
      "saveOrder_firestore (Resolved ''doc1'')"]
  show ?thesis using example_submission h by (simp add: noItemsMessage_def freshPage_def)
qed

text \<open>
  Claim C3. The order that a submission hands to \<^verbatim>\<open>saveOrder\<close> (posted to the
  webhook as it is, added to Firestore with \<^verbatim>\<open>createdAt\<close> appended) has an \<^verbatim>\<open>items\<close>
  array of exactly one line; the line has the properties \<^verbatim>\<open>id\<close>, \<^verbatim>\<open>name\<close>, \<^verbatim>\<open>price\<close>,
  \<^verbatim>\<open>quantity\<close> and no other, so no \<^verbatim>\<open>image\<close>, with the cart item's price and quantity;
  and \<^verbatim>\<open>total\<close> is the product \<^verbatim>\<open>*\<close> of that line's price and quantity. This holds for
  every price and quantity, so for a positive integer quantity and a non-negative price.
\<close>

theorem order_total_is_price_times_quantity:
  assumes "name f \<noteq> []" and "email f \<noteq> []" and "phone f \<noteq> []"
    and "deliveryType f = Some dt"
    and "localStorage w ''cartItem'' = Some s" and "s \<noteq> []"
    and "JSON_parse P s = Inr item" and "\<not> nullish item"
  shows "\<exists>order line w2 w3.
           onSubmit P (saveOrder_sheets r) f w = Inr w2 \<and>
           requests w2 =
             requests w @ [SheetsPost (JObj [(''action'', JStr ''saveOrder''), (''order'', JObj order)])] \<and>
           onSubmit P (saveOrder_firestore r') f w = Inr w3 \<and>
           requests w3 = requests w @ [FirestoreAdd (order @ [(''createdAt'', serverTimestamp)])] \<and>
           get (JObj order) ''items'' = JArr [JObj line] \<and>
           map fst line = [''id'', ''name'', ''price'', ''quantity''] \<and>
           get (JObj line) ''price'' = get item ''price'' \<and>
           get (JObj line) ''quantity'' = get item ''quantity'' \<and>
           get (JObj order) ''total'' = times P (get (JObj line) ''price'') (get (JObj line) ''quantity'')"
proof -
  let ?o = "buildOrder P f dt item"
  let ?line = "[(''id'', get item ''id''), (''name'', get item ''name''),
                (''price'', get item ''price''), (''quantity'', get item ''quantity'')]"
  obtain b w1 where b: "saveOrder_sheets r ?o w = (Resolved (JBool b), w1)"
    using saveOrder_sheets_result[of r ?o w] by (metis prod.collapse)
  have q1: "requests w1 =
      requests w @ [SheetsPost (JObj [(''action'', JStr ''saveOrder''), (''order'', JObj ?o)])]"
    using saveOrder_sheets_frame(4)[of r ?o w] b by simp
  obtain b' w1' where b': "saveOrder_firestore r' ?o w = (Resolved (JBool b'), w1')"
    using saveOrder_firestore_result[of r' ?o w] by (metis prod.collapse)
  have sp: "spread ?o [(''createdAt'', serverTimestamp)] = ?o @ [(''createdAt'', serverTimestamp)]"
    by (simp add: spread_def buildOrder_def)
  have q2: "requests w1' = requests w @ [FirestoreAdd (?o @ [(''createdAt'', serverTimestamp)])]"
    using saveOrder_firestore_frame(4)[of r' ?o w] b' sp by simp
  have s1: "\<exists>w2. onSubmit P (saveOrder_sheets r) f w = Inr w2 \<and> requests w2 = requests w1"
    using onSubmit_valid[where save="saveOrder_sheets r", OF assms b] by (cases b) simp_all
  have s2: "\<exists>w3. onSubmit P (saveOrder_firestore r') f w = Inr w3 \<and> requests w3 = requests w1'"
    using onSubmit_valid[where save="saveOrder_firestore r'", OF assms b'] by (cases b') simp_all
  have l: "get (JObj ?o) ''items'' = JArr [JObj ?line]"
    "get (JObj ?o) ''total'' = times P (get (JObj ?line) ''price'') (get (JObj ?line) ''quantity'')"
    by (simp_all add: buildOrder_def get_def)
  have k: "map fst ?line = [''id'', ''name'', ''price'', ''quantity'']"
    "get (JObj ?line) ''price'' = get item ''price''"
    "get (JObj ?line) ''quantity'' = get item ''quantity''"
    by (simp_all add: get_def)
  from s1 s2 q1 q2 l k show ?thesis by metis
qed

theorem order_total_is_price_times_quantity_witness:
  "name exampleForm \<noteq> [] \<and> email exampleForm \<noteq> [] \<and> phone exampleForm \<noteq> [] \<and>
   deliveryType exampleForm = Some ''pickup'' \<and>
   localStorage cartPage ''cartItem'' = Some exampleCartText \<and> exampleCartText \<noteq> [] \<and>
   JSON_parse exampleRuntime exampleCartText = Inr exampleItem \<and> \<not> nullish exampleItem \<and>
   (\<exists>order line w2.
      onSubmit exampleRuntime (saveOrder_sheets exampleOkReply) exampleForm cartPage = Inr w2 \<and>
      requests w2 = [SheetsPost (JObj [(''action'', JStr ''saveOrder''), (''order'', JObj order)])] \<and>
      get (JObj order) ''items'' = JArr [JObj line] \<and>
      map fst line = [''id'', ''name'', ''price'', ''quantity''] \<and>
      get (JObj line) ''price'' = JNum 5 \<and> get (JObj line) ''quantity'' = JNum 2 \<and>
      get (JObj order) ''total'' = JNum 10)"
proof -
  have p: "requests cartPage = []" by (simp add: cartPage_def freshPage_def)
  have i: "get exampleItem ''price'' = JNum 5" "get exampleItem ''quantity'' = JNum 2"
    by (simp_all add: exampleItem_def get_def)
  have t: "times exampleRuntime (JNum 5) (JNum 2) = JNum 10"
    by (simp add: exampleRuntime_def exampleTimes_def)
  from order_total_is_price_times_quantity[OF example_submission,
      of exampleOkReply "Resolved ''doc1''"]
  obtain order line w2 w3 where c:
    "onSubmit exampleRuntime (saveOrder_sheets exampleOkReply) exampleForm cartPage = Inr w2 \<and>
     requests w2 =
       requests cartPage @ [SheetsPost (JObj [(''action'', JStr ''saveOrder''), (''order'', JObj order)])] \<and>
     onSubmit exampleRuntime (saveOrder_firestore (Resolved ''doc1'')) exampleForm cartPage = Inr w3 \<and>
     requests w3 = requests cartPage @ [FirestoreAdd (order @ [(''createdAt'', serverTimestamp)])] \<and>
     get (JObj order) ''items'' = JArr [JObj line] \<and>
     map fst line = [''id'', ''name'', ''price'', ''quantity''] \<and>
     get (JObj line) ''price'' = get exampleItem ''price'' \<and>
     get (JObj line) ''quantity'' = get exampleItem ''quantity'' \<and>
     get (JObj order) ''total'' =
       times exampleRuntime (get (JObj line) ''price'') (get (JObj line) ''quantity'')"
    by (elim exE)
  have "\<exists>order line w2.
      onSubmit exampleRuntime (saveOrder_sheets exampleOkReply) exampleForm cartPage = Inr w2 \<and>
      requests w2 = [SheetsPost (JObj [(''action'', JStr ''saveOrder''), (''order'', JObj order)])] \<and>
      get (JObj order) ''items'' = JArr [JObj line] \<and>
      map fst line = [''id'', ''name'', ''price'', ''quantity''] \<and>
      get (JObj line) ''price'' = JNum 5 \<and> get (JObj line) ''quantity'' = JNum 2 \<and>
      get (JObj order) ''total'' = JNum 10"
    using c p i t by (intro exI[of _ order] exI[of _ line] exI[of _ w2]) simp
  then show ?thesis using example_submission by simp
qed

text \<open>
  Claim C7, as the code has it. In the Firestore script the sign-in state is read
  once, when the order page is initialised. When the identity backend reports no user
  at that moment (on a page whose form has no listener yet), \<^verbatim>\<open>initOrderPage\<close> alerts,
  sets the location to \<^verbatim>\<open>login.html\<close>, issues no request and registers no submit
  listener: every later submit event, whatever the form holds and whatever Firestore
  would reply, leaves the page as it is, so no order is built and \<^verbatim>\<open>saveOrder\<close> is not
  called.
\<close>

theorem signed_out_blocks_submission:
  assumes "\<not> signedIn w" and "\<not> submitListener w"
  shows "\<exists>w1. initOrderPage_firestore P w = Inr w1 \<and>
           href w1 = ''login.html'' \<and>
           alerts w1 = alerts w @ [''Please log in to place an order.''] \<and>
           requests w1 = requests w \<and>
           (\<forall>f reply. submitEvent P (saveOrder_firestore reply) f w1 = Inr w1)"
  using assms
  by (simp add: initOrderPage_firestore_def isUserSignedIn_def submitEvent_def alert_def)

theorem signed_out_blocks_submission_witness:
  "\<not> signedIn cartPage \<and> \<not> submitListener cartPage \<and>
   (\<exists>w1. initOrderPage_firestore exampleRuntime cartPage = Inr w1 \<and>
           href w1 = ''login.html'' \<and>
           alerts w1 = [''Please log in to place an order.''] \<and>
           requests w1 = [] \<and>
           submitEvent exampleRuntime (saveOrder_firestore (Resolved ''doc1'')) exampleForm w1 = Inr w1)"
proof -
  have h: "\<not> signedIn cartPage" "\<not> submitListener cartPage"
    by (simp_all add: cartPage_def freshPage_def)
  from signed_out_blocks_submission[OF h, of exampleRuntime]
  show ?thesis using h by (auto simp add: cartPage_def freshPage_def)
qed

lemma example_ready: "openOrderPage_firestore exampleRuntime signedInPage = Inr readyPage"
  by (simp add: openOrderPage_firestore_def checkAuthStatus_def updateAuthUI_def isUserSignedIn_def
      initOrderPage_firestore_def renderSummary_def cartEntry_def signedInPage_def cartPage_def
      freshPage_def readyPage_def exampleRuntime_def exampleCartText_def exampleItem_def
      exampleTimes_def nullish_def get_def)

text \<open>
  The claim as stated fails. A signed-in user opens the order page, so the listener is
  registered; the user then signs out with the logout link of the menu, and the
  identity backend reports no user; the form is submitted. The listener builds the
  order and calls \<^verbatim>\<open>saveOrder\<close>, which issues the Firestore call whether Firestore then
  accepts or rejects it, and the location stays the order page.
\<close>

theorem sign_out_after_load_still_submits:
  "signedIn signedInPage \<and>
   openOrderPage_firestore exampleRuntime signedInPage = Inr readyPage \<and>
   \<not> signedIn (navLinkClick (Resolved ()) readyPage) \<and>
   \<not> isUserSignedIn (navLinkClick (Resolved ()) readyPage) \<and>
   map_sum id requests
     (submitEvent exampleRuntime (saveOrder_firestore (Resolved ''aB3xY'')) exampleForm
        (navLinkClick (Resolved ()) readyPage)) = Inr [FirestoreAdd exampleStored] \<and>
   map_sum id href
     (submitEvent exampleRuntime (saveOrder_firestore (Resolved ''aB3xY'')) exampleForm
        (navLinkClick (Resolved ()) readyPage)) = Inr ''order.html'' \<and>
   map_sum id requests
     (submitEvent exampleRuntime
        (saveOrder_firestore (Rejected (JsError ''FirebaseError'' ''permission-denied'')))
        exampleForm (navLinkClick (Resolved ()) readyPage)) = Inr [FirestoreAdd exampleStored] \<and>
   map_sum id href
     (submitEvent exampleRuntime
        (saveOrder_firestore (Rejected (JsError ''FirebaseError'' ''permission-denied'')))
        exampleForm (navLinkClick (Resolved ()) readyPage)) = Inr ''order.html''"
proof -
  let ?w = "navLinkClick (Resolved ()) readyPage"
  have w: "submitListener ?w" "\<not> signedIn ?w" "requests ?w = []" "href ?w = ''order.html''"
    "localStorage ?w ''cartItem'' = Some exampleCartText"
    by (simp_all add: navLinkClick_def readyPage_def signedInPage_def cartPage_def freshPage_def
        signOut_def updateAuthUI_def logTo_def)
  have s: "signedIn signedInPage"
    by (simp add: signedInPage_def)
  have q: "requests (snd (saveOrder_firestore r
             (buildOrder exampleRuntime exampleForm ''pickup'' exampleItem) ?w)) =
           [FirestoreAdd exampleStored]"
      "href (snd (saveOrder_firestore r
             (buildOrder exampleRuntime exampleForm ''pickup'' exampleItem) ?w)) = ''order.html''" for r
    using w(3,4)
    by (simp_all add: saveOrder_firestore_def Let_def send_def logTo_def exampleStored_def
        split: settled.splits)
  have sub: "map_sum id requests (submitEvent exampleRuntime (saveOrder_firestore r) exampleForm ?w)
               = Inr [FirestoreAdd exampleStored] \<and>
             map_sum id href (submitEvent exampleRuntime (saveOrder_firestore r) exampleForm ?w)
               = Inr ''order.html''" for r
  proof -
    obtain b w1 where b: "saveOrder_firestore r
        (buildOrder exampleRuntime exampleForm ''pickup'' exampleItem) ?w = (Resolved (JBool b), w1)"
      using saveOrder_firestore_result by (metis prod.collapse)
    have w1: "requests w1 = [FirestoreAdd exampleStored]" "href w1 = ''order.html''"
      using q[of r] b by simp_all
    from onSubmit_valid[where save="saveOrder_firestore r", OF example_submission(1-4) w(5)
        example_submission(6-8) b]
    show ?thesis
      using w(1) w1 by (cases b) (simp_all add: submitEvent_def alert_def)
  qed
  show ?thesis
    using s example_ready w(2) sub by (simp add: isUserSignedIn_def)
qed

section \<open>Loading the catalog\<close>

lemma loadProductsCatch_products: "allProducts (loadProductsCatch e w) = JArr []"
  by (simp add: loadProductsCatch_def Let_def)

lemma loadProductsCatch_grid:
  "productGrid (loadProductsCatch e w) =
     (if protocol w = ''file:'' \<or> includesStr (message e) ''Failed to fetch'' then productGrid w
      else (case productGrid w of None \<Rightarrow> None | Some old \<Rightarrow> Some couldNotLoad))"
  by (simp add: loadProductsCatch_def Let_def logTo_def)

text \<open>
  Claim C9, as the code has it. When the catalog fetch fails with the error \<open>e\<close>,
  \<^verbatim>\<open>loadProducts\<close> resolves and \<^verbatim>\<open>allProducts\<close> is the empty array. The product grid
  gets the "Could not load flavors" message only when the protocol is not \<^verbatim>\<open>file:\<close>
  and the message of \<open>e\<close> does not contain "Failed to fetch" and the page has a grid;
  in every other case the grid is left as it was.
\<close>

theorem catalog_failure_leaves_empty_catalog:
  assumes "fetchProducts P reply = Inl e"
  shows "fst (loadProducts P reply w) = Resolved () \<and>
         allProducts (snd (loadProducts P reply w)) = JArr [] \<and>
         productGrid (snd (loadProducts P reply w)) =
           (if protocol w = ''file:'' \<or> includesStr (message e) ''Failed to fetch'' then productGrid w
            else (case productGrid w of None \<Rightarrow> None | Some old \<Rightarrow> Some couldNotLoad))"
  using assms
  by (simp add: loadProducts_def Let_def loadProductsCatch_products loadProductsCatch_grid send_def)

text \<open>A response with status 404 on an \<^verbatim>\<open>https:\<close> page that has a grid.\<close>

theorem catalog_failure_leaves_empty_catalog_witness:
  "fetchProducts exampleRuntime (NotOk 404) = Inl (JsError ''Error'' ''HTTP error! status: 404'') \<and>
   fst (loadProducts exampleRuntime (NotOk 404) gridPage) = Resolved () \<and>
   allProducts (snd (loadProducts exampleRuntime (NotOk 404) gridPage)) = JArr [] \<and>
   productGrid (snd (loadProducts exampleRuntime (NotOk 404) gridPage)) = Some couldNotLoad"
proof -
  have h: "fetchProducts exampleRuntime (NotOk 404) = Inl (JsError ''Error'' ''HTTP error! status: 404'')"
    by (simp add: fetchProducts_def exampleRuntime_def exampleToString_def digitChar_def)
  have p: "protocol gridPage = ''https:''" "productGrid gridPage = Some ''<div>old grid</div>''"
    by (simp_all add: gridPage_def freshPage_def)
  from catalog_failure_leaves_empty_catalog[OF h, of gridPage]
  show ?thesis using h p by simp
qed

text \<open>
  The claim as stated fails: the fetch is rejected with the browser's network error
  "Failed to fetch" on an \<^verbatim>\<open>https:\<close> page, and the grid keeps its content.
\<close>

theorem failed_to_fetch_keeps_grid:
  "protocol gridPage \<noteq> ''file:'' \<and>
   fetchProducts exampleRuntime (FetchFailed (JsError ''TypeError'' ''Failed to fetch'')) =
     Inl (JsError ''TypeError'' ''Failed to fetch'') \<and>
   productGrid (snd (loadProducts exampleRuntime
                       (FetchFailed (JsError ''TypeError'' ''Failed to fetch'')) gridPage))
     = Some ''<div>old grid</div>'' \<and>
   Some ''<div>old grid</div>'' \<noteq> Some couldNotLoad"
  by (simp add: loadProducts_def fetchProducts_def loadProductsCatch_def Let_def send_def logTo_def
      gridPage_def freshPage_def couldNotLoad_def)

section \<open>The admin dashboard\<close>

subsection \<open>What the adapter calls leave alone\<close>

lemma getAllOrders_sheets_frame:
  "alerts (snd (getAllOrders_sheets r w)) = alerts w"
  "ordersList (snd (getAllOrders_sheets r w)) = ordersList w"
  "statusListeners (snd (getAllOrders_sheets r w)) = statusListeners w"
  "requests (snd (getAllOrders_sheets r w)) =
     requests w @ [SheetsPost (JObj [(''action'', JStr ''getAllOrders'')])]"
  by (simp_all add: getAllOrders_sheets_def Let_def send_def logTo_def split: settled.splits)

lemma getAllOrders_sheets_resolves: "\<exists>orders. fst (getAllOrders_sheets r w) = Resolved orders"
  by (simp add: getAllOrders_sheets_def Let_def split: settled.splits)

lemma getOrderById_sheets_frame:
  "alerts (snd (getOrderById_sheets r k w)) = alerts w"
  "ordersList (snd (getOrderById_sheets r k w)) = ordersList w"
  "statusListeners (snd (getOrderById_sheets r k w)) = statusListeners w"
  "requests (snd (getOrderById_sheets r k w)) =
     requests w @ [SheetsPost (JObj [(''action'', JStr ''getOrderById''), (''orderId'', k)])]"
  by (simp_all add: getOrderById_sheets_def Let_def send_def logTo_def split: settled.splits)

lemma getOrderById_sheets_resolves: "\<exists>order. fst (getOrderById_sheets r k w) = Resolved order"
  by (simp add: getOrderById_sheets_def Let_def split: settled.splits)

lemma renderCards_takeWhile:
  "renderCards P os cards =
     (if list_all cardRenders os then None else Some nullRead,
      cards @ map (orderCard P) (takeWhile cardRenders os))"
  by (induction os arbitrary: cards) auto

lemma displayOrders_frame:
  "alerts (snd (displayOrders P orders w)) = alerts w"
  "requests (snd (displayOrders P orders w)) = requests w"
  by (cases orders; simp add: displayOrders_def renderCards_takeWhile split: sum.splits)+

lemma loadAndDisplayOrders_snd:
  assumes "fst (getAllOrders_sheets listReply w) = Resolved orders"
  shows "snd (loadAndDisplayOrders P listReply w) =
           snd (displayOrders P orders (snd (getAllOrders_sheets listReply w)))"
  using assms by (cases "getAllOrders_sheets listReply w") (simp add: loadAndDisplayOrders_def)

lemma loadAndDisplayOrders_frame:
  "alerts (snd (loadAndDisplayOrders P r w)) = alerts w"
  "requests (snd (loadAndDisplayOrders P r w)) =
     requests w @ [SheetsPost (JObj [(''action'', JStr ''getAllOrders'')])]"
proof -
  obtain orders where o: "fst (getAllOrders_sheets r w) = Resolved orders"
    using getAllOrders_sheets_resolves by blast
  show "alerts (snd (loadAndDisplayOrders P r w)) = alerts w"
    by (simp add: loadAndDisplayOrders_snd[OF o] displayOrders_frame getAllOrders_sheets_frame)
  show "requests (snd (loadAndDisplayOrders P r w)) =
     requests w @ [SheetsPost (JObj [(''action'', JStr ''getAllOrders'')])]"
    by (simp add: loadAndDisplayOrders_snd[OF o] displayOrders_frame getAllOrders_sheets_frame)
qed

subsection \<open>The sort\<close>

lemma set_insertSorted: "set (insertSorted c x ys) = insert x (set ys)"
  by (induction ys) auto

lemma mset_insertSorted: "mset (insertSorted c x ys) = add_mset x (mset ys)"
  by (induction ys) auto

lemma mset_sortWith: "mset (sortWith c xs) = mset xs"
  unfolding sortWith_def by (induction xs) (auto simp add: mset_insertSorted)

lemma notOlder_trans: "notOlder P a b \<Longrightarrow> notOlder P b c \<Longrightarrow> notOlder P a c"
  by (auto simp add: notOlder_def split: option.splits)

lemma compareByDate_dated:
  assumes "orderTime P a = Some ta" and "orderTime P b = Some tb"
  shows "compareByDate P a b = Some (tb - ta)"
  using assms by (simp add: compareByDate_def orderTime_def)

text \<open>Inserting a dated order into a list that is newest first keeps it newest first.\<close>

lemma sorted_insertSorted:
  assumes "orderTime P x \<noteq> None" and "\<forall>y\<in>set ys. orderTime P y \<noteq> None"
    and "sorted_wrt (notOlder P) ys"
  shows "sorted_wrt (notOlder P) (insertSorted (compareByDate P) x ys)"
  using assms
proof (induction ys)
  case Nil
  then show ?case by simp
next
  case (Cons y ys)
  obtain tx ty where t: "orderTime P x = Some tx" "orderTime P y = Some ty"
    using Cons.prems by auto
  have c: "compareByDate P x y = Some (ty - tx)"
    using t by (rule compareByDate_dated)
  show ?case
  proof (cases "ty \<le> tx")
    case True
    then have xy: "notOlder P x y" using t by (simp add: notOlder_def)
    have "\<forall>z\<in>set ys. notOlder P x z"
      using Cons.prems(3) xy by (auto intro: notOlder_trans)
    then show ?thesis using True c xy Cons.prems(3) by simp
  next
    case False
    then have yx: "notOlder P y x" using t by (simp add: notOlder_def)
    have "sorted_wrt (notOlder P) (insertSorted (compareByDate P) x ys)"
      using Cons by simp
    then show ?thesis
      using False c yx Cons.prems(3) by (auto simp add: set_insertSorted)
  qed
qed

lemma sorted_sortWith:
  assumes "\<forall>x\<in>set xs. orderTime P x \<noteq> None"
  shows "sorted_wrt (notOlder P) (sortWith (compareByDate P) xs)"
  using assms
proof (induction xs)
  case Nil
  then show ?case by (simp add: sortWith_def)
next
  case (Cons x xs)
  have s: "sorted_wrt (notOlder P) (sortWith (compareByDate P) xs)"
    using Cons by simp
  have d: "\<forall>y\<in>set (sortWith (compareByDate P) xs). orderTime P y \<noteq> None"
    using Cons.prems mset_sortWith[of "compareByDate P" xs]
    by (metis list.set_intros(2) set_mset_mset)
  have "sorted_wrt (notOlder P) (insertSorted (compareByDate P) x (sortWith (compareByDate P) xs))"
    using Cons.prems d s by (intro sorted_insertSorted) simp_all
  then show ?case by (simp add: sortWith_def)
qed

lemma sortOrders_objects:
  assumes "\<forall>x\<in>set xs. isObject x"
  shows "sortOrders P xs = Inr (sortWith (compareByDate P) xs)"
proof -
  have a: "\<forall>x\<in>set xs. x \<noteq> JUndefined \<and> x \<noteq> JNull"
    using assms by (auto simp add: isObject_def)
  then have "filter (\<lambda>x. x \<noteq> JUndefined) xs = xs" "filter (\<lambda>x. x = JUndefined) xs = []"
    by (simp_all add: filter_empty_conv)
  moreover have "JNull \<notin> set xs" using a by auto
  ultimately show ?thesis by (simp add: sortOrders_def arraySort_def)
qed

lemma sorted_wrt_takeWhile: "sorted_wrt R xs \<Longrightarrow> sorted_wrt R (takeWhile Q xs)"
  by (induction xs) (auto dest: set_takeWhileD)

lemma displayOrders_cards:
  assumes "os \<noteq> []" and "\<forall>x\<in>set os. isObject x"
  shows "ordersList (snd (displayOrders P (JArr os) w)) =
           Cards (map (orderCard P) (takeWhile cardRenders (sortWith (compareByDate P) os)))"
  using assms
  by (simp add: displayOrders_def sortOrders_objects renderCards_takeWhile)

text \<open>
  Claim C5. Let \<^verbatim>\<open>getAllOrders\<close> resolve to an array of orders, each an object whose
  \<^verbatim>\<open>orderDate\<close> is a valid date (as every order the scripts create has). Then the
  dashboard shows "No orders found" for the empty array and otherwise the cards of a
  list \<open>rendered\<close> of these orders in which every order is at least as recent as the
  next one: for adjacent \<open>a\<close>, \<open>b\<close> the time value of \<open>a\<close> is not less than that of \<open>b\<close>.
  \<open>rendered\<close> holds all the orders when every card can be built; an order whose card
  cannot be built stops the rendering, and the cards before it stay.
\<close>

theorem dashboard_sorted_newest_first:
  assumes "fst (getAllOrders_sheets listReply w) = Resolved (JArr os)"
    and "\<forall>order\<in>set os. isObject order \<and> orderTime P order \<noteq> None"
  shows "\<exists>rendered.
           ordersList (snd (loadAndDisplayOrders P listReply w)) =
             (if os = [] then NoOrdersFound else Cards (map (orderCard P) rendered)) \<and>
           (\<forall>i. Suc i < length rendered \<longrightarrow>
                (\<exists>ta tb. orderTime P (rendered ! i) = Some ta \<and>
                         orderTime P (rendered ! Suc i) = Some tb \<and> tb \<le> ta)) \<and>
           set rendered \<subseteq> set os \<and>
           (list_all cardRenders os \<longrightarrow> mset rendered = mset os)"
proof -
  let ?sorted = "sortWith (compareByDate P) os"
  let ?r = "takeWhile cardRenders ?sorted"
  have s: "sorted_wrt (notOlder P) ?r"
    using assms(2) by (intro sorted_wrt_takeWhile sorted_sortWith) simp
  have adj: "\<forall>i. Suc i < length ?r \<longrightarrow>
                (\<exists>ta tb. orderTime P (?r ! i) = Some ta \<and>
                         orderTime P (?r ! Suc i) = Some tb \<and> tb \<le> ta)"
  proof (intro allI impI)
    fix i assume "Suc i < length ?r"
    then have "notOlder P (?r ! i) (?r ! Suc i)"
      using s by (simp add: sorted_wrt_iff_nth_less)
    then show "\<exists>ta tb. orderTime P (?r ! i) = Some ta \<and>
                         orderTime P (?r ! Suc i) = Some tb \<and> tb \<le> ta"
      by (auto simp add: notOlder_def split: option.splits)
  qed
  have sub: "set ?r \<subseteq> set os"
    using mset_sortWith[of "compareByDate P" os] set_takeWhileD
    by (metis set_mset_mset subsetI)
  have all: "list_all cardRenders os \<longrightarrow> mset ?r = mset os"
  proof
    assume "list_all cardRenders os"
    then have "\<forall>x\<in>set ?sorted. cardRenders x"
      using mset_sortWith[of "compareByDate P" os]
      by (metis list_all_iff set_mset_mset)
    then have e: "?r = ?sorted" by (simp add: takeWhile_eq_all_conv)
    show "mset ?r = mset os" unfolding e by (rule mset_sortWith)
  qed
  have dom: "ordersList (snd (loadAndDisplayOrders P listReply w)) =
             (if os = [] then NoOrdersFound else Cards (map (orderCard P) ?r))"
  proof (cases "os = []")
    case True
    then show ?thesis
      using loadAndDisplayOrders_snd[OF assms(1)] by (simp add: displayOrders_def)
  next
    case False
    have "\<forall>x\<in>set os. isObject x" using assms(2) by simp
    from displayOrders_cards[OF False this] show ?thesis
      using False loadAndDisplayOrders_snd[OF assms(1)] by simp
  qed
  show ?thesis using dom adj sub all by blast
qed

text \<open>The three example orders, loaded on a fresh page.\<close>

lemma example_list:
  "fst (getAllOrders_sheets exampleListReply freshPage) = Resolved (JArr exampleOrders)"
  by (simp add: getAllOrders_sheets_def exampleListReply_def nullish_def get_def truthy_def
      exampleOrders_def)

lemma example_times:
  "orderTime exampleRuntime (exampleOrder 1001 ''2024-01-01T00:00:00.000Z'' ''pending'') = Some 1704067200000"
  "orderTime exampleRuntime (exampleOrder 1002 ''2024-03-01T00:00:00.000Z'' ''completed'') = Some 1709251200000"
  "orderTime exampleRuntime (exampleOrder 1003 ''2023-11-14T22:13:20.000Z'' ''pending'') = Some 1700000000000"
  by (simp_all add: orderTime_def exampleOrder_def get_def exampleRuntime_def exampleDateValue_def)

lemma example_objects: "isObject (exampleOrder n d s)"
  by (simp add: isObject_def exampleOrder_def)

lemma example_compare:
  "compareByDate exampleRuntime (exampleOrder 1002 ''2024-03-01T00:00:00.000Z'' ''completed'')
     (exampleOrder 1003 ''2023-11-14T22:13:20.000Z'' ''pending'') = Some (1700000000000 - 1709251200000)"
  "compareByDate exampleRuntime (exampleOrder 1001 ''2024-01-01T00:00:00.000Z'' ''pending'')
     (exampleOrder 1002 ''2024-03-01T00:00:00.000Z'' ''completed'') = Some (1709251200000 - 1704067200000)"
  "compareByDate exampleRuntime (exampleOrder 1001 ''2024-01-01T00:00:00.000Z'' ''pending'')
     (exampleOrder 1003 ''2023-11-14T22:13:20.000Z'' ''pending'') = Some (1700000000000 - 1704067200000)"
  by (simp_all add: compareByDate_dated[OF example_times(2) example_times(3)]
      compareByDate_dated[OF example_times(1) example_times(2)]
      compareByDate_dated[OF example_times(1) example_times(3)])

lemma example_sorted:
  "sortWith (compareByDate exampleRuntime) exampleOrders =
     [exampleOrder 1002 ''2024-03-01T00:00:00.000Z'' ''completed'',
      exampleOrder 1001 ''2024-01-01T00:00:00.000Z'' ''pending'',
      exampleOrder 1003 ''2023-11-14T22:13:20.000Z'' ''pending'']"
  by (simp add: sortWith_def exampleOrders_def example_compare)

lemma example_renders: "cardRenders (exampleOrder n d s)"
  by (simp add: cardRenders_def exampleOrder_def nullish_def isNumber_def get_def itemRenders_def)

lemma example_cards:
  "orderCard exampleRuntime (exampleOrder 1002 ''2024-03-01T00:00:00.000Z'' ''completed'') =
     OrderCard (exampleOrder 1002 ''2024-03-01T00:00:00.000Z'' ''completed'') None"
  "orderCard exampleRuntime (exampleOrder 1001 ''2024-01-01T00:00:00.000Z'' ''pending'') =
     OrderCard (exampleOrder 1001 ''2024-01-01T00:00:00.000Z'' ''pending'') (Some ''1001'')"
  "orderCard exampleRuntime (exampleOrder 1003 ''2023-11-14T22:13:20.000Z'' ''pending'') =
     OrderCard (exampleOrder 1003 ''2023-11-14T22:13:20.000Z'' ''pending'') (Some ''1003'')"
  by (simp_all add: orderCard_def exampleOrder_def get_def exampleRuntime_def exampleToString_def
      digitChar_def)

lemma loadedPage_cards:
  "ordersList loadedPage =
     Cards [OrderCard (exampleOrder 1002 ''2024-03-01T00:00:00.000Z'' ''completed'') None,
            OrderCard (exampleOrder 1001 ''2024-01-01T00:00:00.000Z'' ''pending'') (Some ''1001''),
            OrderCard (exampleOrder 1003 ''2023-11-14T22:13:20.000Z'' ''pending'') (Some ''1003'')]"
proof -
  have n: "exampleOrders \<noteq> []" by (simp add: exampleOrders_def)
  have o: "\<forall>x\<in>set exampleOrders. isObject x"
    by (simp add: exampleOrders_def example_objects)
  show ?thesis
    unfolding loadedPage_def loadAndDisplayOrders_snd[OF example_list]
      displayOrders_cards[OF n o] example_sorted
    by (simp add: example_renders example_cards)
qed

theorem dashboard_sorted_newest_first_witness:
  "fst (getAllOrders_sheets exampleListReply freshPage) = Resolved (JArr exampleOrders) \<and>
   list_all (\<lambda>order. isObject order \<and> orderTime exampleRuntime order \<noteq> None) exampleOrders \<and>
   (\<exists>rendered.
      ordersList (snd (loadAndDisplayOrders exampleRuntime exampleListReply freshPage)) =
        Cards (map (orderCard exampleRuntime) rendered) \<and>
      mset rendered = mset exampleOrders \<and>
      map (orderTime exampleRuntime) rendered =
        [Some 1709251200000, Some 1704067200000, Some 1700000000000])"
proof -
  have h: "\<forall>order\<in>set exampleOrders. isObject order \<and> orderTime exampleRuntime order \<noteq> None"
    by (simp add: exampleOrders_def example_objects example_times)
  have r: "list_all cardRenders exampleOrders" "exampleOrders \<noteq> []"
    by (simp_all add: exampleOrders_def example_renders)
  from dashboard_sorted_newest_first[OF example_list h]
  obtain rendered where c:
    "ordersList (snd (loadAndDisplayOrders exampleRuntime exampleListReply freshPage)) =
       Cards (map (orderCard exampleRuntime) rendered)"
    "mset rendered = mset exampleOrders"
    using r by auto
  have "map shown (map (orderCard exampleRuntime) rendered) = rendered"
    by (simp add: orderCard_def comp_def)
  moreover have "map (orderCard exampleRuntime) rendered =
       [OrderCard (exampleOrder 1002 ''2024-03-01T00:00:00.000Z'' ''completed'') None,
        OrderCard (exampleOrder 1001 ''2024-01-01T00:00:00.000Z'' ''pending'') (Some ''1001''),
        OrderCard (exampleOrder 1003 ''2023-11-14T22:13:20.000Z'' ''pending'') (Some ''1003'')]"
    using c(1) loadedPage_cards by (simp add: loadedPage_def)
  ultimately have "rendered =
       [exampleOrder 1002 ''2024-03-01T00:00:00.000Z'' ''completed'',
        exampleOrder 1001 ''2024-01-01T00:00:00.000Z'' ''pending'',
        exampleOrder 1003 ''2023-11-14T22:13:20.000Z'' ''pending'']"
    by simp
  then have t: "map (orderTime exampleRuntime) rendered =
        [Some 1709251200000, Some 1704067200000, Some 1700000000000]"
    by (simp add: example_times)
  have l: "list_all (\<lambda>order. isObject order \<and> orderTime exampleRuntime order \<noteq> None) exampleOrders"
    using h by (simp add: list_all_iff)
  show ?thesis
    by (intro conjI exI[of _ rendered]; fact example_list l c t)
qed

subsection \<open>\<^verbatim>\<open>updateOrderStatus\<close>\<close>

lemma updateStatusCatch_simps:
  "fst (updateStatusCatch e w) = Resolved JUndefined"
  "alerts (snd (updateStatusCatch e w)) = alerts w @ [''Error updating order status: '' @ message e]"
  "requests (snd (updateStatusCatch e w)) = requests w"
  "ordersList (snd (updateStatusCatch e w)) = ordersList w"
  by (simp_all add: updateStatusCatch_def alert_def logTo_def)

text \<open>
  After the order was read and found truthy, the rest of \<^verbatim>\<open>updateOrderStatus\<close> runs on
  the page \<open>w2\<close> on which the write was issued.
\<close>

lemma updateOrderStatus_sheets_found:
  assumes "getOrderById_sheets g k w = (Resolved order, w1)" and "truthy order"
  shows "updateOrderStatus_sheets P g u l k st w =
       (case u of
          Rejected err \<Rightarrow> updateStatusCatch err (send (statusWrite order st) w1)
        | Resolved result \<Rightarrow>
            if nullish result then updateStatusCatch nullRead (send (statusWrite order st) w1)
            else if truthy (get result ''success'') then
              (Resolved JUndefined,
               alert (''Order #'' @ toString P k @ '' status updated to '' @ toString P st)
                 (snd (loadAndDisplayOrders P l (send (statusWrite order st) w1))))
            else (Resolved JUndefined,
                  alert (''Error updating order: '' @ toString P (get result ''error''))
                    (send (statusWrite order st) w1)))"
  using assms unfolding statusWrite_def
  by (simp add: updateOrderStatus_sheets_def Let_def)

lemma updateOrderStatus_sheets_shape:
  fixes P :: "'n::zero runtime"
  shows "fst (updateOrderStatus_sheets P g u l k st w) = Resolved JUndefined \<and>
   (\<exists>msg. alerts (snd (updateOrderStatus_sheets P g u l k st w)) = alerts w @ [msg]) \<and>
   (\<exists>order. requests (snd (updateOrderStatus_sheets P g u l k st w)) \<in>
      {requests w @ [SheetsPost (JObj [(''action'', JStr ''getOrderById''), (''orderId'', k)])],
       requests w @ [SheetsPost (JObj [(''action'', JStr ''getOrderById''), (''orderId'', k)]),
                     statusWrite order st],
       requests w @ [SheetsPost (JObj [(''action'', JStr ''getOrderById''), (''orderId'', k)]),
                     statusWrite order st,
                     SheetsPost (JObj [(''action'', JStr ''getAllOrders'')])]})"
proof -
  obtain order w1 where e: "getOrderById_sheets g k w = (Resolved order, w1)"
    using getOrderById_sheets_resolves[of g k w] by (metis prod.collapse)
  have f: "alerts w1 = alerts w"
    "requests w1 = requests w @ [SheetsPost (JObj [(''action'', JStr ''getOrderById''), (''orderId'', k)])]"
    using getOrderById_sheets_frame(1,4)[of g k w] e by simp_all
  show ?thesis
  proof (cases "truthy order")
    case False
    then show ?thesis
      using f by (simp add: updateOrderStatus_sheets_def e)
  next
    case True
    define w2 where "w2 = send (statusWrite order st) w1"
    have w2: "alerts w2 = alerts w"
      "requests w2 = requests w @ [SheetsPost (JObj [(''action'', JStr ''getOrderById''), (''orderId'', k)]),
                     statusWrite order st]"
      using f by (simp_all add: send_def w2_def)
    show ?thesis
      unfolding updateOrderStatus_sheets_found[OF e True] w2_def[symmetric]
      by (cases u)
         (auto simp add: updateStatusCatch_simps w2 loadAndDisplayOrders_frame)
  qed
qed

text \<open>
  Claim C4, as the code has it. In both scripts the promise of
  \<^verbatim>\<open>updateOrderStatus\<close> is never rejected and resolves to \<^verbatim>\<open>undefined\<close> on every path,
  whether the write succeeds or not: the function has no \<^verbatim>\<open>return\<close> statement. The
  outcome goes to the user instead: the spreadsheet script shows exactly one alert, and
  so does the Firestore script when no reload function is defined, the confirmation
  after a successful update and the message of the error after a failed one.
\<close>

theorem updateOrderStatus_resolves_undefined:
  fixes P :: "'n::zero runtime"
  shows "fst (updateOrderStatus_sheets P g u l orderId newStatus w) = Resolved JUndefined \<and>
     (\<exists>msg. alerts (snd (updateOrderStatus_sheets P g u l orderId newStatus w)) = alerts w @ [msg]) \<and>
     fst (updateOrderStatus_firestore P reload r orderId newStatus w) = Resolved JUndefined \<and>
     alerts (snd (updateOrderStatus_firestore P None r orderId newStatus w)) =
       alerts w @
       [case r of
          Resolved done \<Rightarrow> ''Order #'' @ toString P orderId @ '' status updated to '' @ toString P newStatus
        | Rejected e \<Rightarrow> ''Error updating order status: '' @ message e]"
  using updateOrderStatus_sheets_shape[of P g u l orderId newStatus w]
  by (cases r) (simp_all add: updateOrderStatus_firestore_def Let_def alert_def send_def logTo_def)

lemma example_get:
  "getOrderById_sheets exampleGetReply k w =
     (Resolved (exampleOrder 1001 ''2024-01-01T00:00:00.000Z'' ''pending''),
      send (SheetsPost (JObj [(''action'', JStr ''getOrderById''), (''orderId'', k)])) w)"
  by (simp add: getOrderById_sheets_def exampleGetReply_def nullish_def get_def truthy_def)

lemma example_truthy: "truthy (exampleOrder n d s)"
  by (simp add: truthy_def exampleOrder_def)

lemma example_update:
  "updateOrderStatus_sheets exampleRuntime exampleGetReply exampleOkReply l (JNum 1001)
     (JStr ''completed'') w =
   (Resolved JUndefined,
    alert ''Order #1001 status updated to completed''
      (snd (loadAndDisplayOrders exampleRuntime l
         (send (statusWrite (exampleOrder 1001 ''2024-01-01T00:00:00.000Z'' ''pending'') (JStr ''completed''))
            (send (SheetsPost (JObj [(''action'', JStr ''getOrderById''), (''orderId'', JNum 1001)])) w)))))"
  unfolding updateOrderStatus_sheets_found[OF example_get example_truthy]
  by (simp add: exampleOkReply_def nullish_def get_def truthy_def exampleRuntime_def
      exampleToString_def digitChar_def)

text \<open>
  The claim as stated fails: the webhook finds order 1001 and accepts the write, the
  user sees the confirmation, and the promise resolves to \<^verbatim>\<open>undefined\<close>, not to
  \<^verbatim>\<open>true\<close>.
\<close>

theorem successful_write_resolves_undefined:
  "fst (updateOrderStatus_sheets exampleRuntime exampleGetReply exampleOkReply exampleListReply
         (JNum 1001) (JStr ''completed'') loadedPage) = Resolved JUndefined \<and>
   fst (updateOrderStatus_sheets exampleRuntime exampleGetReply exampleOkReply exampleListReply
         (JNum 1001) (JStr ''completed'') loadedPage) \<noteq> Resolved (JBool True) \<and>
   alerts (snd (updateOrderStatus_sheets exampleRuntime exampleGetReply exampleOkReply exampleListReply
         (JNum 1001) (JStr ''completed'') loadedPage)) =
     [''Order #1001 status updated to completed'']"
  by (simp add: example_update loadAndDisplayOrders_frame send_def loadedPage_def freshPage_def)

subsection \<open>The status button\<close>

lemma shown_orderCard: "shown (orderCard P order) = order"
  by (simp add: orderCard_def)

lemma faithful_display:
  assumes "faithfulCards P (ordersList w)"
  shows "faithfulCards P (ordersList (snd (displayOrders P orders w)))"
proof (cases orders)
  case (JArr os)
  show ?thesis
  proof (cases "os = []")
    case True
    then show ?thesis by (simp add: JArr displayOrders_def faithfulCards_def)
  next
    case False
    show ?thesis
    proof (cases "sortOrders P os")
      case (Inl e)
      then show ?thesis using assms False by (simp add: JArr displayOrders_def)
    next
      case (Inr ordered)
      then show ?thesis
        using False
        by (simp add: JArr displayOrders_def renderCards_takeWhile faithfulCards_def
            list_all_iff shown_orderCard)
    qed
  qed
next
  case (JObj kvs)
  then show ?thesis using assms by (simp add: displayOrders_def faithfulCards_def)
qed (use assms in \<open>simp_all add: displayOrders_def\<close>)

lemma faithful_load:
  assumes "faithfulCards P (ordersList w)"
  shows "faithfulCards P (ordersList (snd (loadAndDisplayOrders P r w)))"
proof -
  obtain orders where o: "fst (getAllOrders_sheets r w) = Resolved orders"
    using getAllOrders_sheets_resolves by blast
  have "faithfulCards P (ordersList (snd (getAllOrders_sheets r w)))"
    using assms by (simp add: getAllOrders_sheets_frame)
  then show ?thesis
    unfolding loadAndDisplayOrders_snd[OF o] by (rule faithful_display)
qed

lemma faithful_update:
  assumes "faithfulCards P (ordersList w)"
  shows "faithfulCards P (ordersList (snd (updateOrderStatus_sheets P g u l k st w)))"
proof -
  obtain order w1 where e: "getOrderById_sheets g k w = (Resolved order, w1)"
    using getOrderById_sheets_resolves[of g k w] by (metis prod.collapse)
  have f: "ordersList w1 = ordersList w"
    using getOrderById_sheets_frame(2)[of g k w] e by simp
  show ?thesis
  proof (cases "truthy order")
    case False
    then show ?thesis
      using f assms by (simp add: updateOrderStatus_sheets_def e)
  next
    case True
    define w2 where "w2 = send (statusWrite order st) w1"
    have w2: "faithfulCards P (ordersList w2)"
      using f assms by (simp add: send_def w2_def)
    show ?thesis
      unfolding updateOrderStatus_sheets_found[OF e True] w2_def[symmetric]
      using w2 faithful_load[OF w2, of l]
      by (cases u) (simp_all add: updateStatusCatch_simps)
  qed
qed

lemma faithful_click:
  assumes "faithfulCards P (ordersList w)"
  shows "faithfulCards P (ordersList (clickStatusButton P g u l i w))"
  using assms faithful_update[OF assms]
  by (auto simp add: clickStatusButton_def split: orders_dom.splits option.splits)

lemma dashboard_faithful: "dashboard P w \<Longrightarrow> faithfulCards P (ordersList w)"
proof (induction rule: dashboard.induct)
  case (opened w)
  then show ?case by (simp add: faithfulCards_def)
next
  case (loaded w listReply)
  then show ?case by (simp add: faithful_load)
next
  case (clicked w getReply updateReply listReply i)
  then show ?case by (simp add: faithful_click)
qed

lemma completed_is_not_pending:
  "get (setProp order ''status'' (JStr ''completed'')) ''status'' \<noteq> JStr ''pending''"
  by (cases order) (simp_all add: setProp_def get_def update_conv')

lemma click_requests:
  fixes P :: "'n::zero runtime"
  shows "\<exists>new. requests (clickStatusButton P g u l i w) = requests w @ new \<and>
           (\<forall>env. SheetsPost env \<in> set new \<longrightarrow> get (get env ''order'') ''status'' \<noteq> JStr ''pending'')"
proof (cases "clickStatusButton P g u l i w = w")
  case True
  then show ?thesis by simp
next
  case False
  then obtain idText where c: "clickStatusButton P g u l i w =
      snd (updateOrderStatus_sheets P g u l (parseInt P idText) (JStr ''completed'') w)"
    by (auto simp add: clickStatusButton_def split: orders_dom.splits option.splits if_splits)
  from updateOrderStatus_sheets_shape[of P g u l "parseInt P idText" "JStr ''completed''" w]
  obtain order where
    "requests (snd (updateOrderStatus_sheets P g u l (parseInt P idText) (JStr ''completed'') w)) \<in>
      {requests w @ [SheetsPost (JObj [(''action'', JStr ''getOrderById''), (''orderId'', parseInt P idText)])],
       requests w @ [SheetsPost (JObj [(''action'', JStr ''getOrderById''), (''orderId'', parseInt P idText)]),
                     statusWrite order (JStr ''completed'')],
       requests w @ [SheetsPost (JObj [(''action'', JStr ''getOrderById''), (''orderId'', parseInt P idText)]),
                     statusWrite order (JStr ''completed''),
                     SheetsPost (JObj [(''action'', JStr ''getAllOrders'')])]}"
    by blast
  then show ?thesis
    unfolding c using completed_is_not_pending[of order]
    by (auto simp add: statusWrite_def get_def)
qed

text \<open>
  Claim C6. In every state of the admin dashboard: a card has the status button
  exactly when the order it shows has status \<^verbatim>\<open>pending\<close>, so an order shown as
  \<^verbatim>\<open>completed\<close> has none; a click either runs nothing or is a click on the card of a
  pending order and runs \<^verbatim>\<open>updateOrderStatus\<close> with the new status \<^verbatim>\<open>completed\<close>; and
  no request that a click issues carries an order with status \<^verbatim>\<open>pending\<close>.
\<close>

theorem completed_orders_stay_completed:
  fixes P :: "'n::zero runtime"
  assumes "dashboard P w"
  shows "(\<forall>cards c. ordersList w = Cards cards \<longrightarrow> c \<in> set cards \<longrightarrow>
            (action c \<noteq> None) = (get (shown c) ''status'' = JStr ''pending'')) \<and>
         (\<forall>g u l i.
            clickStatusButton P g u l i w = w \<or>
            (\<exists>cards idText. ordersList w = Cards cards \<and> i < length cards \<and>
               get (shown (cards ! i)) ''status'' = JStr ''pending'' \<and>
               clickStatusButton P g u l i w =
                 snd (updateOrderStatus_sheets P g u l (parseInt P idText) (JStr ''completed'') w))) \<and>
         (\<forall>g u l i. \<exists>new.
            requests (clickStatusButton P g u l i w) = requests w @ new \<and>
            (\<forall>env. SheetsPost env \<in> set new \<longrightarrow>
               get (get env ''order'') ''status'' \<noteq> JStr ''pending''))"
proof -
  have f: "faithfulCards P (ordersList w)"
    using assms by (rule dashboard_faithful)
  have offered: "(action c \<noteq> None) = (get (shown c) ''status'' = JStr ''pending'')"
    if "ordersList w = Cards cards" "c \<in> set cards" for cards c
  proof -
    have "c = orderCard P (shown c)"
      using f that by (simp add: faithfulCards_def list_all_iff)
    then have "action c = action (orderCard P (shown c))" by simp
    then show ?thesis by (simp add: orderCard_def)
  qed
  have click: "clickStatusButton P g u l i w = w \<or>
            (\<exists>cards idText. ordersList w = Cards cards \<and> i < length cards \<and>
               get (shown (cards ! i)) ''status'' = JStr ''pending'' \<and>
               clickStatusButton P g u l i w =
                 snd (updateOrderStatus_sheets P g u l (parseInt P idText) (JStr ''completed'') w))"
    for g u l i
  proof (cases "clickStatusButton P g u l i w = w")
    case True
    then show ?thesis by simp
  next
    case False
    then obtain cards idText where c: "ordersList w = Cards cards" "i < length cards"
      "action (cards ! i) = Some idText"
      "clickStatusButton P g u l i w =
         snd (updateOrderStatus_sheets P g u l (parseInt P idText) (JStr ''completed'') w)"
      by (auto simp add: clickStatusButton_def split: orders_dom.splits option.splits if_splits)
    have "get (shown (cards ! i)) ''status'' = JStr ''pending''"
      using offered[OF c(1), of "cards ! i"] c(2,3) by simp
    then show ?thesis using c by blast
  qed
  show ?thesis
    using offered click click_requests[of P _ _ _ _ w] by blast
qed

text \<open>
  The dashboard after the three example orders were loaded: the card of the completed
  order 1002 comes first and has no button, and a click on the second card, the pending
  order 1001, writes the order back with status \<^verbatim>\<open>completed\<close>.
\<close>

theorem completed_orders_stay_completed_witness:
  "dashboard exampleRuntime loadedPage \<and>
   ordersList loadedPage =
     Cards [OrderCard (exampleOrder 1002 ''2024-03-01T00:00:00.000Z'' ''completed'') None,
            OrderCard (exampleOrder 1001 ''2024-01-01T00:00:00.000Z'' ''pending'') (Some ''1001''),
            OrderCard (exampleOrder 1003 ''2023-11-14T22:13:20.000Z'' ''pending'') (Some ''1003'')] \<and>
   (action (OrderCard (exampleOrder 1002 ''2024-03-01T00:00:00.000Z'' ''completed'') None) \<noteq> None) =
     (get (shown (OrderCard (exampleOrder 1002 ''2024-03-01T00:00:00.000Z'' ''completed'') None))
        ''status'' = JStr ''pending'') \<and>
   clickStatusButton exampleRuntime exampleGetReply exampleOkReply exampleListReply 0 loadedPage =
     loadedPage \<and>
   requests (clickStatusButton exampleRuntime exampleGetReply exampleOkReply exampleListReply 1 loadedPage) =
     requests loadedPage @
     [SheetsPost (JObj [(''action'', JStr ''getOrderById''), (''orderId'', JNum 1001)]),
      SheetsPost (JObj [(''action'', JStr ''updateOrder''),
                        (''order'', exampleOrder 1001 ''2024-01-01T00:00:00.000Z'' ''completed'')]),
      SheetsPost (JObj [(''action'', JStr ''getAllOrders'')])] \<and>
   (\<exists>new. requests (clickStatusButton exampleRuntime exampleGetReply exampleOkReply exampleListReply
                       1 loadedPage) = requests loadedPage @ new \<and>
          (\<forall>env. SheetsPost env \<in> set new \<longrightarrow> get (get env ''order'') ''status'' \<noteq> JStr ''pending''))"
proof -
  have d: "dashboard exampleRuntime loadedPage"
    unfolding loadedPage_def
    by (rule dashboard.loaded, rule dashboard.opened) (simp add: freshPage_def)
  note t = completed_orders_stay_completed[OF d]
  let ?c = "OrderCard (exampleOrder 1002 ''2024-03-01T00:00:00.000Z'' ''completed'') None"
  have a: "(action ?c \<noteq> None) = (get (shown ?c) ''status'' = JStr ''pending'')"
    using conjunct1[OF t, rule_format, OF loadedPage_cards, of ?c] by simp
  have n: "\<exists>new. requests (clickStatusButton exampleRuntime exampleGetReply exampleOkReply exampleListReply
                       1 loadedPage) = requests loadedPage @ new \<and>
          (\<forall>env. SheetsPost env \<in> set new \<longrightarrow> get (get env ''order'') ''status'' \<noteq> JStr ''pending'')"
    using conjunct2[OF conjunct2[OF t], rule_format, of exampleGetReply exampleOkReply exampleListReply 1] .
  have o: "exampleOrders \<noteq> []" "\<forall>x\<in>set exampleOrders. isObject x"
    by (simp_all add: exampleOrders_def example_objects)
  have l: "statusListeners loadedPage"
    unfolding loadedPage_def loadAndDisplayOrders_snd[OF example_list]
    by (simp add: displayOrders_def o(1) sortOrders_objects[OF o(2)] example_sorted
        renderCards_takeWhile example_renders)
  have c0: "clickStatusButton exampleRuntime exampleGetReply exampleOkReply exampleListReply 0 loadedPage =
     loadedPage"
    by (simp add: clickStatusButton_def loadedPage_cards)
  have p: "parseInt exampleRuntime ''1001'' = JNum 1001"
    by (simp add: exampleRuntime_def exampleParseInt_def digitValue_def)
  have s: "setProp (exampleOrder 1001 ''2024-01-01T00:00:00.000Z'' ''pending'') ''status'' (JStr ''completed'')
           = exampleOrder 1001 ''2024-01-01T00:00:00.000Z'' ''completed''"
    by (simp add: setProp_def exampleOrder_def)
  have c1: "requests (clickStatusButton exampleRuntime exampleGetReply exampleOkReply exampleListReply 1 loadedPage) =
     requests loadedPage @
     [SheetsPost (JObj [(''action'', JStr ''getOrderById''), (''orderId'', JNum 1001)]),
      SheetsPost (JObj [(''action'', JStr ''updateOrder''),
                        (''order'', exampleOrder 1001 ''2024-01-01T00:00:00.000Z'' ''completed'')]),
      SheetsPost (JObj [(''action'', JStr ''getAllOrders'')])]"
    by (simp add: clickStatusButton_def loadedPage_cards l p example_update
        loadAndDisplayOrders_frame send_def statusWrite_def s)
  show ?thesis
    by (intro conjI; fact d loadedPage_cards a c0 c1 n)
qed

section \<open>Document identifiers in the Firestore adapter\<close>

lemma fromSnapshot_id:
  assumes "distinct (map fst data)" and "map_of data ''id'' = Some v"
  shows "get (fromSnapshot docId data) ''id'' = v"
  using assms by (simp add: fromSnapshot_def get_def map_of_spread)

text \<open>
  What \<^verbatim>\<open>saveOrder\<close> adds for a submitted order has the property \<^verbatim>\<open>id\<close>, the
  \<^verbatim>\<open>Date.now()\<close> of the submission.
\<close>

lemma saved_order_has_client_id:
  "map_of (spread (buildOrder P f dt item) [(''createdAt'', serverTimestamp)]) ''id'' =
     Some (JNum (Date_now P)) \<and>
   distinct (map fst (spread (buildOrder P f dt item) [(''createdAt'', serverTimestamp)]))"
  by (simp add: spread_def buildOrder_def)

text \<open>
  Claim C10. Let the data of a stored document (an object, each key once) have the
  property \<^verbatim>\<open>id\<close> with value \<open>v\<close>. The record built from its snapshot has \<^verbatim>\<open>id\<close> equal to
  \<open>v\<close>, not to the document identifier; \<^verbatim>\<open>getOrderById\<close> resolves to that record and
  \<^verbatim>\<open>getAllOrders\<close> to an array with that record at the document's position; and
  \<^verbatim>\<open>updateOrder\<close> applied to the record issues exactly one call, the update of the
  document with key \<open>v\<close>.
\<close>

theorem fetched_record_carries_stored_id:
  assumes "distinct (map fst data)" and "map_of data ''id'' = Some v"
  shows "get (fromSnapshot docId data) ''id'' = v \<and>
         fst (getOrderById_firestore (Resolved (docId, Some data)) key w) =
           Resolved (fromSnapshot docId data) \<and>
         fst (getAllOrders_firestore (Resolved (before @ [(docId, data)] @ after)) w) =
           Resolved (JArr (map (\<lambda>(d, x). fromSnapshot d x) before @ [fromSnapshot docId data] @
                           map (\<lambda>(d, x). fromSnapshot d x) after)) \<and>
         (\<exists>fetched fields. fromSnapshot docId data = JObj fetched \<and>
            requests (snd (updateOrder_firestore reply fetched w)) =
              requests w @ [FirestoreUpdate v fields])"
proof -
  have i: "get (fromSnapshot docId data) ''id'' = v"
    using assms by (rule fromSnapshot_id)
  have g: "fst (getOrderById_firestore (Resolved (docId, Some data)) key w) =
             Resolved (fromSnapshot docId data)"
    by (simp add: getOrderById_firestore_def Let_def)
  have a: "fst (getAllOrders_firestore (Resolved (before @ [(docId, data)] @ after)) w) =
             Resolved (JArr (map (\<lambda>(d, x). fromSnapshot d x) before @ [fromSnapshot docId data] @
                             map (\<lambda>(d, x). fromSnapshot d x) after))"
    by (simp add: getAllOrders_firestore_def Let_def)
  let ?fetched = "spread [(''id'', JStr docId)] data"
  have f: "fromSnapshot docId data = JObj ?fetched"
    by (simp add: fromSnapshot_def)
  have u: "requests (snd (updateOrder_firestore reply ?fetched w)) =
             requests w @ [FirestoreUpdate v (AList.delete ''id'' ?fetched)]"
    using i unfolding f
    by (cases reply) (simp_all add: updateOrder_firestore_def Let_def send_def logTo_def)
  show ?thesis
    using i g a f u by blast
qed

text \<open>
  The document that \<^verbatim>\<open>saveOrder\<close> added for the example submission, stored under the
  identifier \<^verbatim>\<open>aB3xY\<close>: the fetched record has the number 1700000000000 as \<^verbatim>\<open>id\<close>, and
  the update addresses that number, not \<^verbatim>\<open>aB3xY\<close>.
\<close>

theorem fetched_record_carries_stored_id_witness:
  "distinct (map fst exampleStored) \<and>
   map_of exampleStored ''id'' = Some (JNum 1700000000000) \<and>
   get (fromSnapshot ''aB3xY'' exampleStored) ''id'' = JNum 1700000000000 \<and>
   JNum 1700000000000 \<noteq> (JStr ''aB3xY'' :: int jsval) \<and>
   fst (getOrderById_firestore (Resolved (''aB3xY'', Some exampleStored)) (JStr ''aB3xY'') freshPage) =
     Resolved (fromSnapshot ''aB3xY'' exampleStored) \<and>
   (\<exists>fetched fields. fromSnapshot ''aB3xY'' exampleStored = JObj fetched \<and>
      requests (snd (updateOrder_firestore (Resolved ()) fetched freshPage)) =
        [FirestoreUpdate (JNum 1700000000000) fields])"
proof -
  have d: "distinct (map fst exampleStored)"
    using saved_order_has_client_id[of exampleRuntime exampleForm "''pickup''" exampleItem]
    by (simp add: exampleStored_def)
  have m: "map_of exampleStored ''id'' = Some (JNum 1700000000000)"
    using saved_order_has_client_id[of exampleRuntime exampleForm "''pickup''" exampleItem]
    by (simp add: exampleStored_def exampleRuntime_def)
  have p: "requests freshPage = []" by (simp add: freshPage_def)
  from fetched_record_carries_stored_id[OF d m, of "''aB3xY''" "JStr ''aB3xY''" freshPage "[]" "[]" "Resolved ()"]
  show ?thesis using d m p by simp
qed

end
